theory Spec2Isabelle
  imports
    Complex_Main
    "HOL-Library.Char_ord"
    "HOL-Library.List_Lexorder"
    "HOL-Library.AList"
    "HOL-Library.Signed_Division"
    "HOL-Library.Word"
begin

section \<open>The OPC UA input client: data model\<close>

text \<open>
  A Go \<^verbatim>\<open>map[K]V\<close> is modelled as the list of its entries, in the order a
  \<^verbatim>\<open>range\<close> loop happens to visit them; the keys of a Go map are pairwise different.
  The assignment \<^verbatim>\<open>m[k] = v\<close> is \<^const>\<open>AList.update\<close>, a \<^verbatim>\<open>range\<close> loop is a
  \<^const>\<open>fold\<close> over the entries, and what a map means (its content without the
  iteration order) is \<^const>\<open>map_of\<close>.
\<close>

type_synonym ('k, 'v) gomap = "('k \<times> 'v) list"

definition wf_gomap :: "('k, 'v) gomap \<Rightarrow> bool" where
  "wf_gomap m = distinct (map fst m)"

text \<open>Reading \<^verbatim>\<open>m[k]\<close> from a string-valued map: a missing key reads as the empty string.\<close>

definition index_str :: "(string, string) gomap \<Rightarrow> string \<Rightarrow> string" where
  "index_str m k = (case map_of m k of None \<Rightarrow> [] | Some v \<Rightarrow> v)"

text \<open>\<^verbatim>\<open>for n, t := range src { dst[n] = t }\<close>\<close>

definition range_assign :: "('k, 'v) gomap \<Rightarrow> ('k, 'v) gomap \<Rightarrow> ('k, 'v) gomap" where
  "range_assign src dst = fold (\<lambda>(n, t) m. AList.update n t m) src dst"

text \<open>
  A \<^verbatim>\<open>float64\<close>: a finite value (given by the real number it denotes), an infinity
  or a NaN. Only the comparison with zero is used by the client.
\<close>

datatype float64 = Float real | PosInf | NegInf | NaN



record DataChangeFilter =
  Trigger :: string
  DeadbandType :: string
  DeadbandValue :: "float64 option"

text \<open>
  \<^verbatim>\<open>config.Duration\<close> is a signed 64-bit count of nanoseconds; no operation of the client
  on it can overflow, so it is an \<^typ>\<open>int\<close>.
\<close>

record MonitoringParameters =
  SamplingInterval :: int
  QueueSize :: "32 word option"
  DiscardOldest :: "bool option"
  DataChangeFilter :: "DataChangeFilter option"

text \<open>
  NodeSettings, without its two deprecated fields DataType and Description, which the
  client ignores.
\<close>

record NodeSettings =
  FieldName :: string
  Namespace :: string
  IdentifierType :: string
  Identifier :: string
  TagsSlice :: "string list list"
  DefaultTags :: "(string, string) gomap"
  MonitoringParams :: MonitoringParameters

definition NodeID :: "NodeSettings \<Rightarrow> string" where
  "NodeID tag = ''ns='' @ Namespace tag @ '';'' @ IdentifierType tag @ ''='' @ Identifier tag"

record NodeGroupSettings =
  GroupMetricName :: string
  GroupNamespace :: string
  GroupIdentifierType :: string
  Nodes :: "NodeSettings list"
  GroupTagsSlice :: "string list list"
  GroupDefaultTags :: "(string, string) gomap"
  GroupSamplingInterval :: int

record NodeMetricMapping =
  Tag :: NodeSettings
  idStr :: string
  metricName :: string
  MetricTags :: "(string, string) gomap"

text \<open>metricParts is only used to ensure no duplicate metrics are created.\<close>

record metricParts =
  mp_metricName :: string
  mp_fieldName :: string
  mp_tags :: string

subsection \<open>Errors\<close>

text \<open>
  One constructor for each error the client creates, holding the operands of its message;
  the message text is quoted beside it.
\<close>

datatype filter_error =
    TriggerNotSupported string        \<comment> \<open>trigger '%s' not supported\<close>
  | DeadbandTypeNotSupported string   \<comment> \<open>deadband_type '%s' not supported\<close>
  | DeadbandValueNotSet               \<comment> \<open>deadband_value was not set\<close>
  | NegativeDeadbandValue             \<comment> \<open>negative deadband_value not supported\<close>

datatype error =
    TagNeedsTwoValues nat nat "string list"  \<comment> \<open>tag %d needs 2 values, has %d: %v\<close>
  | TagEmptyName nat                         \<comment> \<open>tag %d has empty name\<close>
  | TagEmptyValue nat                        \<comment> \<open>tag %d has empty value\<close>
  | TagDuplicateKey nat string               \<comment> \<open>tag %d has duplicate key: %v\<close>
  | EmptyName string                         \<comment> \<open>empty name in %q\<close>
  | EmptyNamespace                           \<comment> \<open>empty node namespace not allowed\<close>
  | EmptyIdentifier                          \<comment> \<open>empty node identifier not allowed\<close>
  | NameDuplicated string string string
      \<comment> \<open>name %q is duplicated (metric name %q, tags %q): field name, metric name, tags\<close>
  | IdentifierTypeMismatch string string
      \<comment> \<open>identifier type %q does not match the type of identifier %q\<close>
  | InvalidIdentifierType string string      \<comment> \<open>invalid identifier type %q in %q\<close>
  | FilterOfNode filter_error string
      \<comment> \<open>the text of the filter error followed by , node '%s' with the node id as operand\<close>
  | ConnectError string                      \<comment> \<open>an error of the protocol stack\<close>
  | MonitorItemsFailed error                 \<comment> \<open>failed to start monitoring items: %w\<close>
  | MonitorEventsFailed error                \<comment> \<open>failed to start monitoring event stream: %w\<close>
  | CreateItemFailed "32 word"
      \<comment> \<open>creating monitored item failed with status code: %w\<close>
  | CreateEventItemFailed "32 word"
      \<comment> \<open>creating monitored event streaming item failed with status code: %w\<close>

section \<open>Point mapping builder\<close>

subsection \<open>tagsSliceToMap\<close>

fun tagsSliceToMap_from ::
  "nat \<Rightarrow> string list list \<Rightarrow> (string, string) gomap \<Rightarrow> error + (string, string) gomap"
where
  "tagsSliceToMap_from i [] m = Inr m"
| "tagsSliceToMap_from i (tag # rest) m =
     (if length tag \<noteq> 2 then Inl (TagNeedsTwoValues (i + 1) (length tag) tag)
      else if tag ! 0 = [] then Inl (TagEmptyName (i + 1))
      else if tag ! 1 = [] then Inl (TagEmptyValue (i + 1))
      else if map_of m (tag ! 0) \<noteq> None then Inl (TagDuplicateKey (i + 1) (tag ! 0))
      else tagsSliceToMap_from (i + 1) rest (AList.update (tag ! 0) (tag ! 1) m))"

definition tagsSliceToMap :: "string list list \<Rightarrow> error + (string, string) gomap" where
  "tagsSliceToMap tags = tagsSliceToMap_from 0 tags []"

subsection \<open>NewNodeMetricMapping\<close>

definition NewNodeMetricMapping ::
  "string \<Rightarrow> NodeSettings \<Rightarrow> (string, string) gomap \<Rightarrow> error + NodeMetricMapping"
where
  "NewNodeMetricMapping name node groupTags =
     (let mergedTags = range_assign groupTags [] in
      case (if length (DefaultTags node) > 0 then Inr (DefaultTags node)
            else if length (TagsSlice node) > 0 then tagsSliceToMap (TagsSlice node)
            else Inr [])
      of Inl err \<Rightarrow> Inl err
       | Inr nodeTags \<Rightarrow>
           Inr \<lparr>Tag = node, idStr = NodeID node, metricName = name,
                MetricTags = range_assign nodeTags mergedTags\<rparr>)"

subsection \<open>newMP\<close>

text \<open>
  The loop of newMP over the sorted keys, writing into the string builder \<open>sb\<close>;
  \<open>i\<close> is the loop index.
\<close>

fun writeTags :: "nat \<Rightarrow> string list \<Rightarrow> (string, string) gomap \<Rightarrow> string \<Rightarrow> string" where
  "writeTags i [] tags sb = sb"
| "writeTags i (key # keys) tags sb =
     writeTags (i + 1) keys tags
       ((if i \<noteq> 0 then sb @ '', '' else sb) @ key @ ''='' @ index_str tags key)"

definition newMP :: "NodeMetricMapping \<Rightarrow> metricParts" where
  "newMP n =
     (let keys = sort (map fst (MetricTags n)) in
      \<lparr>mp_metricName = metricName n,
       mp_fieldName = FieldName (Tag n),
       mp_tags = writeTags 0 keys (MetricTags n) []\<rparr>)"

subsection \<open>validateNodeToAdd\<close>





subsection \<open>InitNodeMetricMapping\<close>

text \<open>
  The logger of the client is the list of the entries written so far. An entry holds the
  operands of its message; the message text is quoted beside each kind. The node id of
  a message is the text of the node id, or the placeholder the source prints when the
  list of node ids has no entry for the index.
\<close>

datatype go_value =
    NilValue
  | Float64 float64
  | Int64 int
  | Str string
  | Bool bool
  | TimeValue int
  | LocalizedTextPtr string   \<comment> \<open>a pointer to a ua.LocalizedText with this Text\<close>
  | OtherValue string

datatype node_text = NodeText string | Placeholder

datatype log_msg =
    TagsInBoth
      \<comment> \<open>Tags found in both `tags` and `default_tags`, only using tags defined in `default_tags`\<close>
  | StatusNotOKForNode string node_text "32 word"
      \<comment> \<open>status not OK for node %v (%v): %v\<close>
  | StatusNotOKForMetric string string string
      \<comment> \<open>status not OK for node %q(metric name %q, tags %q)\<close>
  | ConnectWillRetry string error
      \<comment> \<open>Failed to connect to OPC UA server %s. Will attempt to connect again at the next interval: %s\<close>
  | ConnectWillNotRetry string error
      \<comment> \<open>Failed to connect to OPC UA server %s. Will not retry: %s\<close>
  | CreatingSubscription            \<comment> \<open>Creating OPC UA subscription\<close>
  | FailedToCreateSubscription      \<comment> \<open>Failed to create subscription\<close>
  | SubscribedWithID nat            \<comment> \<open>Subscribed with subscription ID %d\<close>
  | MonitoringItems                 \<comment> \<open>Monitoring items\<close>
  | MonitoringEvents                \<comment> \<open>Monitoring events\<close>
  | FailedToCreateMonitoredItem string node_text
      \<comment> \<open>Failed to create monitored item for node %v (%v)\<close>
  | ProcessingStopped               \<comment> \<open>Processing received notifications stopped\<close>
  | ChannelClosed
      \<comment> \<open>Data notification channel closed. Processing of received notifications stopped\<close>
  | NotificationError string        \<comment> \<open>the error of the notification itself\<close>
  | ReceivedNilNotification         \<comment> \<open>Received nil notification\<close>
  | ReceivedDataChange nat
      \<comment> \<open>Received data change notification with %d items\<close>
  | DataChangeValue string go_value go_value
      \<comment> \<open>Data change notification: node %q value changed from %v to %v\<close>
  | ProcessingEvents nat            \<comment> \<open>Processing event notification with %d events\<close>
  | FieldHasNilValue string         \<comment> \<open>Field %s has nil value\<close>
  | MessageNotLocalizedText go_value
      \<comment> \<open>Message field is not of type *ua.LocalizedText: %T\<close>
  | UnexpectedNotificationType string
      \<comment> \<open>Received notification has unexpected type %s\<close>

datatype log_entry = Debug log_msg | Warn log_msg | Error log_msg

text \<open>
  InputClientConfig with the two fields of the embedded client configuration that the
  client reads (Endpoint, OptionalFields).
\<close>

record InputClientConfig =
  Endpoint :: string
  OptionalFields :: "string list"
  MetricName :: string
  Timestamp :: string
  TimestampFormat :: string
  RootNodes :: "NodeSettings list"
  Groups :: "NodeGroupSettings list"







section \<open>The input client: last received values and measurements\<close>

text \<open>
  What the client takes from outside its own source: the check of a status code against
  the accepted codes (a method of the embedded connection client), the text of a status
  code, of a type id and of a time in a layout, the conversion of the names of a trigger
  and of a deadband type into their protocol numbers, the text of a nil node id (none if
  asking for it panics), and the wall clock, whose readings are numbered in the order
  they are taken.
\<close>

datatype TypeID = TypeIDNull | TypeIDDouble | TypeIDDateTime | TypeIDOther nat

record externals =
  StatusCodeOK :: "32 word \<Rightarrow> bool"
  StatusCodeError :: "32 word \<Rightarrow> string"
  TrimSpace :: "string \<Rightarrow> string"
  TypeIDString :: "TypeID \<Rightarrow> string"
  FormatTime :: "int \<Rightarrow> string \<Rightarrow> string"
  DataChangeTriggerFromString :: "string \<Rightarrow> 32 word"
  DeadbandTypeFromString :: "string \<Rightarrow> 32 word"
  NilNodeIDString :: "string option"
  clock :: "nat \<Rightarrow> int"

text \<open>
  A variant of the protocol with its declared type and its value, and a data value.
  A time is a count of nanoseconds; the zero time is 0.
\<close>

record Variant =
  VariantType :: TypeID
  VariantValue :: go_value

record DataValue =
  dv_Value :: "Variant option"
  dv_Status :: "32 word"
  dv_ServerTimestamp :: int
  dv_SourceTimestamp :: int

record NodeValue =
  TagName :: string
  Value :: go_value
  Quality :: "32 word"
  ServerTime :: int
  SourceTime :: int
  DataType :: TypeID

text \<open>
  Modelled from the spec: the measurement that metric.New builds, whose source is not
  part of the files at hand: a name, a tag map, a field map and a timestamp.
\<close>

record Metric =
  m_name :: string
  m_tags :: "(string, string) gomap"
  m_fields :: "(string, go_value) gomap"
  m_time :: int

definition metricNew ::
  "string \<Rightarrow> (string, string) gomap \<Rightarrow> (string, go_value) gomap \<Rightarrow> int \<Rightarrow> Metric"
where
  "metricNew name tgs flds t = \<lparr>m_name = name, m_tags = tgs, m_fields = flds, m_time = t\<rparr>"

text \<open>
  The mapping of an event stream, with the two fields the notification loop reads; a node
  id is kept as the text its String method gives, and \<open>None\<close> is the nil node id.
\<close>

record EventNodeMetricMapping =
  ev_NodeID :: "string option"
  ev_Fields :: "string list"

text \<open>
  OpcUAInputClient. The logger is the list of entries written; \<open>clockReads\<close> counts
  the readings of the wall clock taken so far.
\<close>

record OpcUAInputClient =
  Config :: InputClientConfig
  Log :: "log_entry list"
  clockReads :: nat
  NodeMetricMapping :: "NodeMetricMapping list"
  NodeIDs :: "string list"
  LastReceivedData :: "NodeValue list"
  EventClientHandle :: "(32 word, EventNodeMetricMapping) gomap"

text \<open>
  How a call ends: it returns, it panics (an index out of range, a nil pointer), or it
  blocks for ever (a send on a nil channel).
\<close>

datatype 'a outcome = Done 'a | Panic | Blocked

definition logs :: "log_entry \<Rightarrow> 'a OpcUAInputClient_scheme \<Rightarrow> 'a OpcUAInputClient_scheme" where
  "logs e c = c\<lparr>Log := Log c @ [e]\<rparr>"

definition initLastReceivedValues :: "'a OpcUAInputClient_scheme \<Rightarrow> 'a OpcUAInputClient_scheme" where
  "initLastReceivedValues c =
     c\<lparr>LastReceivedData :=
         map (\<lambda>nmm. \<lparr>TagName = FieldName (Tag nmm), Value = NilValue, Quality = 0,
                      ServerTime = 0, SourceTime = 0, DataType = TypeIDNull\<rparr>)
           (NodeMetricMapping c)\<rparr>"

subsection \<open>UpdateNodeValue\<close>

definition UpdateNodeValue ::
  "externals \<Rightarrow> nat \<Rightarrow> DataValue option \<Rightarrow> 'a OpcUAInputClient_scheme
    \<Rightarrow> 'a OpcUAInputClient_scheme outcome"
where
  "UpdateNodeValue X nodeIdx dp c =
     (case dp of
        None \<Rightarrow> Panic
      | Some d \<Rightarrow>
          if nodeIdx \<ge> length (LastReceivedData c) then Panic
          else
            let c1 = c\<lparr>LastReceivedData :=
                       (LastReceivedData c)[nodeIdx :=
                          (LastReceivedData c ! nodeIdx)\<lparr>Quality := dv_Status d\<rparr>]\<rparr>
            in if \<not> StatusCodeOK X (dv_Status d) then
                 (if nodeIdx \<ge> length (NodeMetricMapping c1) then Panic
                  else if length (NodeIDs c1) > nodeIdx then
                    Done (logs (Error (StatusNotOKForNode
                            (FieldName (Tag (NodeMetricMapping c1 ! nodeIdx)))
                            (NodeText (NodeIDs c1 ! nodeIdx)) (dv_Status d))) c1)
                  else
                    Done (logs (Error (StatusNotOKForNode
                            (FieldName (Tag (NodeMetricMapping c1 ! nodeIdx)))
                            Placeholder (dv_Status d))) c1))
               else
                 let c2 =
                   (case dv_Value d of
                      None \<Rightarrow> c1
                    | Some v \<Rightarrow>
                        c1\<lparr>LastReceivedData :=
                            (LastReceivedData c1)[nodeIdx :=
                               (LastReceivedData c1 ! nodeIdx)
                                 \<lparr>DataType := VariantType v,
                                  Value :=
                                    (if VariantType v = TypeIDDateTime then
                                       (case VariantValue v of
                                          TimeValue t \<Rightarrow>
                                            Str (FormatTime X t (TimestampFormat (Config c1)))
                                        | other \<Rightarrow> other)
                                     else VariantValue v)\<rparr>]\<rparr>)
                 in Done (c2\<lparr>LastReceivedData :=
                            (LastReceivedData c2)[nodeIdx :=
                               (LastReceivedData c2 ! nodeIdx)
                                 \<lparr>ServerTime := dv_ServerTimestamp d,
                                  SourceTime := dv_SourceTimestamp d\<rparr>]\<rparr>))"

subsection \<open>MetricForNode\<close>

text \<open>\<^verbatim>\<open>strings.Replace(s, old, "", 1)\<close> for a non-empty \<open>old\<close>.\<close>

fun removeFirst :: "string \<Rightarrow> string \<Rightarrow> string" where
  "removeFirst old [] = []"
| "removeFirst old (c # cs) =
     (if take (length old) (c # cs) = old then drop (length old) (c # cs)
      else c # removeFirst old cs)"

text \<open>
  The measurement of a node and the client after the call (its log, its count of clock
  readings). \<^verbatim>\<open>choice.Contains\<close> is membership in the list.
\<close>

definition MetricForNode ::
  "externals \<Rightarrow> nat \<Rightarrow> 'a OpcUAInputClient_scheme
    \<Rightarrow> (Metric \<times> 'a OpcUAInputClient_scheme) outcome"
where
  "MetricForNode X nodeIdx c =
     (if nodeIdx \<ge> length (NodeMetricMapping c) \<or> nodeIdx \<ge> length (LastReceivedData c)
      then Panic
      else
        let nmm = NodeMetricMapping c ! nodeIdx;
            lastv = LastReceivedData c ! nodeIdx;
            tags = range_assign (MetricTags nmm) [(''id'', idStr nmm)];
            fields1 = AList.update (FieldName (Tag nmm)) (Value lastv) [];
            fields2 = AList.update ''Quality''
                        (Str (TrimSpace X (StatusCodeError X (Quality lastv)))) fields1;
            fields3 = (if ''DataType'' \<in> set (OptionalFields (Config c))
                       then AList.update ''DataType''
                              (Str (removeFirst ''TypeID'' (TypeIDString X (DataType lastv))))
                              fields2
                       else fields2);
            c1 = (if \<not> StatusCodeOK X (Quality lastv)
                  then let mp = newMP nmm in
                       logs (Debug (StatusNotOKForMetric
                               (mp_fieldName mp) (mp_metricName mp) (mp_tags mp))) c
                  else c)
        in if Timestamp (Config c) = ''server''
           then Done (metricNew (metricName nmm) tags fields3 (ServerTime lastv), c1)
           else if Timestamp (Config c) = ''source''
           then Done (metricNew (metricName nmm) tags fields3 (SourceTime lastv), c1)
           else Done (metricNew (metricName nmm) tags fields3 (clock X (clockReads c1)),
                      c1\<lparr>clockReads := clockReads c1 + 1\<rparr>))"

section \<open>The subscribe client\<close>

subsection \<open>Monitoring requests\<close>

record ua_DataChangeFilter =
  ua_Trigger :: "32 word"
  ua_DeadbandType :: "32 word"
  ua_DeadbandValue :: float64

record RequestedParameters =
  rp_ClientHandle :: "32 word"
  rp_SamplingInterval :: float64
  rp_Filter :: "ua_DataChangeFilter option"
  rp_QueueSize :: "32 word"
  rp_DiscardOldest :: bool

text \<open>A request to monitor an item; the node id is kept as its text.\<close>

record MonitoredItemCreateRequest =
  ItemToMonitor :: string
  RequestedParams :: RequestedParameters



subsection \<open>Connecting and starting the streams\<close>

text \<open>
  The answers of the protocol stack to the calls of one start operation: to Connect, to
  Subscribe (the id of the subscription) and to Monitor (the status code of each result).
\<close>

record environment =
  ConnectResult :: "error option"
  SubscribeResult :: "error + nat"
  MonitorResult :: "MonitoredItemCreateRequest list \<Rightarrow> error + 32 word list"

datatype protocol_call =
    CallConnect
  | CallSubscribe int
  | CallMonitor "MonitoredItemCreateRequest list"

record subscribeClientConfig = InputClientConfig +
  SubscriptionInterval :: int
  ConnectFailBehavior :: string

text \<open>
  subscribeClient embeds the input client. A channel of measurements is the sequence of the
  measurements sent on it, \<open>None\<close> being the nil channel. \<open>protocolCalls\<close> lists
  the calls made to the protocol stack and \<open>goroutines\<close> counts the notification
  loops started.
\<close>

record subscribeClient = OpcUAInputClient +
  scConfig :: subscribeClientConfig
  sub :: "nat option"
  monitoredItemsReqs :: "MonitoredItemCreateRequest list"
  eventItemsReqs :: "MonitoredItemCreateRequest list"
  metrics :: "Metric list option"
  eventMetrics :: "Metric list option"
  protocolCalls :: "protocol_call list"
  goroutines :: nat

definition connect :: "environment \<Rightarrow> subscribeClient \<Rightarrow> error option \<times> subscribeClient" where
  "connect E c =
     (let c1 = c\<lparr>protocolCalls := protocolCalls c @ [CallConnect]\<rparr> in
      case ConnectResult E of
        Some err \<Rightarrow> (Some err, c1)
      | None \<Rightarrow>
          let c2 = (logs (Debug CreatingSubscription) c1)
                     \<lparr>protocolCalls :=
                        protocolCalls c1 @ [CallSubscribe (SubscriptionInterval (scConfig c1))]\<rparr>
          in case SubscribeResult E of
               Inl err \<Rightarrow> (Some err, logs (Error FailedToCreateSubscription) (c2\<lparr>sub := None\<rparr>))
             | Inr sid \<Rightarrow> (None, logs (Debug (SubscribedWithID sid)) (c2\<lparr>sub := Some sid\<rparr>)))"

type_synonym start_result = "(Metric list option \<times> error option) \<times> subscribeClient"

text \<open>The loop of startStreamValues over the results of Monitor, from index \<open>idx\<close>.\<close>

fun checkMonitoredItems ::
  "externals \<Rightarrow> nat \<Rightarrow> 32 word list \<Rightarrow> subscribeClient \<Rightarrow> start_result outcome"
where
  "checkMonitoredItems X idx [] c =
     Done ((metrics c, None), c\<lparr>goroutines := goroutines c + 1\<rparr>)"
| "checkMonitoredItems X idx (res # rest) c =
     (if \<not> StatusCodeOK X res then
        (if idx \<ge> length (NodeMetricMapping c) then Panic
         else if length (NodeIDs c) > idx then
           Done ((None, Some (CreateItemFailed res)),
                 logs (Debug (FailedToCreateMonitoredItem
                         (FieldName (Tag (NodeMetricMapping c ! idx)))
                         (NodeText (NodeIDs c ! idx)))) c)
         else
           Done ((None, Some (CreateItemFailed res)),
                 logs (Debug (FailedToCreateMonitoredItem
                         (FieldName (Tag (NodeMetricMapping c ! idx))) Placeholder)) c))
      else checkMonitoredItems X (idx + 1) rest c)"

definition startStreamValues ::
  "externals \<Rightarrow> environment \<Rightarrow> subscribeClient \<Rightarrow> start_result outcome"
where
  "startStreamValues X E c =
     (if length (monitoredItemsReqs c) = 0 then Done ((None, None), c)
      else case connect E c of
        (Some err, c1) \<Rightarrow>
          if ConnectFailBehavior (scConfig c1) = ''retry''
          then Done ((None, None),
                     logs (Warn (ConnectWillRetry (Endpoint (scConfig c1)) err)) c1)
          else if ConnectFailBehavior (scConfig c1) = ''ignore''
          then Done ((None, None),
                     logs (Error (ConnectWillNotRetry (Endpoint (scConfig c1)) err)) c1)
          else Done ((None, Some err), c1)
      | (None, c1) \<Rightarrow>
          let c2 = c1\<lparr>protocolCalls :=
                      protocolCalls c1 @ [CallMonitor (monitoredItemsReqs c1)]\<rparr>
          in case MonitorResult E (monitoredItemsReqs c1) of
               Inl err \<Rightarrow> Done ((None, Some (MonitorItemsFailed err)), c2)
             | Inr results \<Rightarrow> checkMonitoredItems X 0 results (logs (Debug MonitoringItems) c2))"

text \<open>The loop of startStreamEvents over the results of Monitor.\<close>

fun checkEventItems :: "externals \<Rightarrow> 32 word list \<Rightarrow> subscribeClient \<Rightarrow> start_result" where
  "checkEventItems X [] c =
     ((Some [], None), c\<lparr>eventMetrics := Some [], goroutines := goroutines c + 1\<rparr>)"
| "checkEventItems X (res # rest) c =
     (if \<not> StatusCodeOK X res then ((None, Some (CreateEventItemFailed res)), c)
      else checkEventItems X rest c)"

definition startStreamEvents ::
  "externals \<Rightarrow> environment \<Rightarrow> subscribeClient \<Rightarrow> start_result outcome"
where
  "startStreamEvents X E c =
     (if length (eventItemsReqs c) = 0 then Done ((None, None), c)
      else case connect E c of
        (Some err, c1) \<Rightarrow>
          if ConnectFailBehavior (scConfig c1) = ''retry''
          then Done ((None, None),
                     logs (Warn (ConnectWillRetry (Endpoint (scConfig c1)) err)) c1)
          else if ConnectFailBehavior (scConfig c1) = ''ignore''
          then Done ((None, None),
                     logs (Error (ConnectWillNotRetry (Endpoint (scConfig c1)) err)) c1)
          else Done ((None, Some err), c1)
      | (None, c1) \<Rightarrow>
          let c2 = c1\<lparr>protocolCalls :=
                      protocolCalls c1 @ [CallMonitor (eventItemsReqs c1)]\<rparr>
          in case MonitorResult E (eventItemsReqs c1) of
               Inl err \<Rightarrow> Done ((None, Some (MonitorEventsFailed err)), c2)
             | Inr results \<Rightarrow> Done (checkEventItems X results (logs (Debug MonitoringEvents) c2)))"

subsection \<open>processReceivedNotifications\<close>

record MonitoredItemNotification =
  ClientHandle :: "32 word"
  ItemValue :: "DataValue option"

text \<open>The fields of an event, each by the value of its variant.\<close>

record EventFieldList =
  ev_ClientHandle :: "32 word"
  EventFields :: "go_value list"

datatype notification_value =
    NilNotification
  | DataChangeNotification "MonitoredItemNotification list"
  | EventNotificationList "EventFieldList list"
  | OtherNotification string

record PublishNotificationData =
  pn_Error :: "string option"
  pn_Value :: notification_value

text \<open>
  A send on a channel of measurements. The channels are buffered and the reader runs
  beside the loop; the model keeps the sequence of what was sent and leaves the waiting
  for a slow reader out.
\<close>

definition send :: "Metric \<Rightarrow> Metric list option \<Rightarrow> Metric list option outcome" where
  "send m ch = (case ch of None \<Rightarrow> Blocked | Some q \<Rightarrow> Done (Some (q @ [m])))"

text \<open>The loop over the monitored items of a data change notification.\<close>

fun processMonitoredItems ::
  "externals \<Rightarrow> MonitoredItemNotification list \<Rightarrow> subscribeClient \<Rightarrow> subscribeClient outcome"
where
  "processMonitoredItems X [] c = Done c"
| "processMonitoredItems X (item # items) c =
     (let i = unat (ClientHandle item) in
      if i \<ge> length (LastReceivedData c) then Panic
      else
        let oldValue = Value (LastReceivedData c ! i) in
        case UpdateNodeValue X i (ItemValue item) c of
          Panic \<Rightarrow> Panic
        | Blocked \<Rightarrow> Blocked
        | Done c1 \<Rightarrow>
            if i \<ge> length (NodeIDs c1) then Panic
            else
              let c2 = logs (Debug (DataChangeValue (NodeIDs c1 ! i) oldValue
                                      (Value (LastReceivedData c1 ! i)))) c1
              in case MetricForNode X i c2 of
                   Panic \<Rightarrow> Panic
                 | Blocked \<Rightarrow> Blocked
                 | Done (m, c3) \<Rightarrow>
                     (case send m (metrics c3) of
                        Panic \<Rightarrow> Panic
                      | Blocked \<Rightarrow> Blocked
                      | Done ch \<Rightarrow> processMonitoredItems X items (c3\<lparr>metrics := ch\<rparr>)))"

text \<open>
  The loop over the fields of one event: \<open>names\<close> are the configured field names of
  the node, \<open>i\<close> the index of the field, and the result the field map and the log.
\<close>

fun processEventFields ::
  "string list \<Rightarrow> nat \<Rightarrow> go_value list \<Rightarrow> (string, go_value) gomap \<times> log_entry list
    \<Rightarrow> ((string, go_value) gomap \<times> log_entry list) outcome"
where
  "processEventFields names i [] acc = Done acc"
| "processEventFields names i (v # rest) (flds, lg) =
     (if i \<ge> length names then Panic
      else
        let fieldName = names ! i in
        if v = NilValue
        then processEventFields names (i + 1) rest (flds, lg @ [Warn (FieldHasNilValue fieldName)])
        else if fieldName = ''Message''
        then (case v of
                LocalizedTextPtr txt \<Rightarrow>
                  processEventFields names (i + 1) rest
                    (AList.update ''Message'' (Str txt) flds, lg)
              | other \<Rightarrow>
                  processEventFields names (i + 1) rest
                    (flds, lg @ [Warn (MessageNotLocalizedText other)]))
        else processEventFields names (i + 1) rest (AList.update fieldName v flds, lg))"

text \<open>Reading a handle that is not in the map gives the zero mapping.\<close>

definition lookupEventClientHandle ::
  "(32 word, EventNodeMetricMapping) gomap \<Rightarrow> 32 word \<Rightarrow> EventNodeMetricMapping" where
  "lookupEventClientHandle m h =
     (case map_of m h of None \<Rightarrow> \<lparr>ev_NodeID = None, ev_Fields = []\<rparr> | Some node \<Rightarrow> node)"

fun processEvents ::
  "externals \<Rightarrow> EventFieldList list \<Rightarrow> subscribeClient \<Rightarrow> subscribeClient outcome"
where
  "processEvents X [] c = Done c"
| "processEvents X (event # events) c =
     (let node = lookupEventClientHandle (EventClientHandle c) (ev_ClientHandle event) in
      case processEventFields (ev_Fields node) 0 (EventFields event) ([], Log c) of
        Panic \<Rightarrow> Panic
      | Blocked \<Rightarrow> Blocked
      | Done (flds, lg) \<Rightarrow>
          (case (case ev_NodeID node of None \<Rightarrow> NilNodeIDString X | Some s \<Rightarrow> Some s) of
             None \<Rightarrow> Panic
           | Some nodeIdText \<Rightarrow>
               let tags = [(''node_id'', nodeIdText), (''source'', Endpoint (scConfig c))];
                   m = metricNew ''opcua_event'' tags flds (clock X (clockReads c))
               in case send m (eventMetrics c) of
                    Panic \<Rightarrow> Panic
                  | Blocked \<Rightarrow> Blocked
                  | Done ch \<Rightarrow>
                      processEvents X events
                        (c\<lparr>Log := lg, clockReads := clockReads c + 1, eventMetrics := ch\<rparr>)))"

text \<open>
  The body of the loop for one received notification: the loop goes on (\<open>Continue\<close>)
  or the function returns (\<open>Return\<close>).
\<close>

datatype 'a step = Continue 'a | Return 'a

definition processNotification ::
  "externals \<Rightarrow> PublishNotificationData \<Rightarrow> subscribeClient \<Rightarrow> subscribeClient step outcome"
where
  "processNotification X res c =
     (case pn_Error res of
        Some err \<Rightarrow> Done (Continue (logs (Error (NotificationError err)) c))
      | None \<Rightarrow>
          (case pn_Value res of
             NilNotification \<Rightarrow> Done (Return (logs (Error ReceivedNilNotification) c))
           | DataChangeNotification items \<Rightarrow>
               (case processMonitoredItems X items
                       (logs (Debug (ReceivedDataChange (length items))) c) of
                  Panic \<Rightarrow> Panic | Blocked \<Rightarrow> Blocked | Done c' \<Rightarrow> Done (Continue c'))
           | EventNotificationList events \<Rightarrow>
               (case processEvents X events
                       (logs (Debug (ProcessingEvents (length events))) c) of
                  Panic \<Rightarrow> Panic | Blocked \<Rightarrow> Blocked | Done c' \<Rightarrow> Done (Continue c'))
           | OtherNotification ty \<Rightarrow>
               Done (Continue (logs (Warn (UnexpectedNotificationType ty)) c))))"

text \<open>
  What a round of the \<^verbatim>\<open>select\<close> yields: the context is done, the channel of
  notifications is closed, or a notification is received. The loop is run on a finite
  sequence of such rounds; when the sequence ends the loop is still waiting.
\<close>

datatype select_round = CtxDone | ChannelIsClosed | Received PublishNotificationData

datatype loop_state = Waiting subscribeClient | Returned subscribeClient

fun processReceivedNotifications ::
  "externals \<Rightarrow> select_round list \<Rightarrow> subscribeClient \<Rightarrow> loop_state outcome"
where
  "processReceivedNotifications X [] c = Done (Waiting c)"
| "processReceivedNotifications X (CtxDone # rounds) c =
     Done (Returned (logs (Debug ProcessingStopped) c))"
| "processReceivedNotifications X (ChannelIsClosed # rounds) c =
     Done (Returned (logs (Debug ChannelClosed) c))"
| "processReceivedNotifications X (Received res # rounds) c =
     (case processNotification X res c of
        Panic \<Rightarrow> Panic
      | Blocked \<Rightarrow> Blocked
      | Done (Return c') \<Rightarrow> Done (Returned c')
      | Done (Continue c') \<Rightarrow> processReceivedNotifications X rounds c')"

section \<open>Descriptions used in the statements\<close>






text \<open>Example values: a node, a mapping, a group and a configuration.\<close>

definition mkNode :: "string \<Rightarrow> string \<Rightarrow> string \<Rightarrow> string \<Rightarrow> (string, string) gomap \<Rightarrow> NodeSettings" where
  "mkNode name ns idt ident tags =
     \<lparr>FieldName = name, Namespace = ns, IdentifierType = idt, Identifier = ident,
      TagsSlice = [], DefaultTags = tags,
      MonitoringParams = \<lparr>SamplingInterval = 0, QueueSize = None, DiscardOldest = None,
                          DataChangeFilter = None\<rparr>\<rparr>"


definition mkMapping :: "string \<Rightarrow> NodeSettings \<Rightarrow> (string, string) gomap \<Rightarrow> NodeMetricMapping" where
  "mkMapping name node tags = \<lparr>Tag = node, idStr = NodeID node, metricName = name, MetricTags = tags\<rparr>"




text \<open>
  The slot of the cache after an update with an accepted status (\<open>okSlot\<close>), after an
  update with a status that is not accepted (\<open>badSlot\<close>), and after any update.
\<close>

definition okSlot :: "externals \<Rightarrow> string \<Rightarrow> DataValue \<Rightarrow> NodeValue \<Rightarrow> NodeValue" where
  "okSlot X layout d old =
     old\<lparr>Quality := dv_Status d,
         DataType := (case dv_Value d of None \<Rightarrow> DataType old | Some v \<Rightarrow> VariantType v),
         Value := (case dv_Value d of
                     None \<Rightarrow> Value old
                   | Some v \<Rightarrow>
                       if VariantType v = TypeIDDateTime
                       then (case VariantValue v of
                               TimeValue t \<Rightarrow> Str (FormatTime X t layout)
                             | other \<Rightarrow> other)
                       else VariantValue v),
         ServerTime := dv_ServerTimestamp d,
         SourceTime := dv_SourceTimestamp d\<rparr>"

definition badSlot :: "DataValue \<Rightarrow> NodeValue \<Rightarrow> NodeValue" where
  "badSlot d old = old\<lparr>Quality := dv_Status d\<rparr>"

definition slotAfter :: "externals \<Rightarrow> string \<Rightarrow> DataValue \<Rightarrow> NodeValue \<Rightarrow> NodeValue" where
  "slotAfter X layout d old =
     (if StatusCodeOK X (dv_Status d) then okSlot X layout d old else badSlot d old)"

text \<open>
  An item of a data change notification can be processed: it has a data value and its
  handle is an index of the cache, of the node ids and of the mappings.
\<close>

definition itemReady :: "subscribeClient \<Rightarrow> MonitoredItemNotification \<Rightarrow> bool" where
  "itemReady c item =
     (ItemValue item \<noteq> None \<and>
      unat (ClientHandle item) < length (LastReceivedData c) \<and>
      unat (ClientHandle item) < length (NodeIDs c) \<and>
      unat (ClientHandle item) < length (NodeMetricMapping c))"


text \<open>
  Example values for the subscribe client: what it takes from outside, requests, clients,
  mappings, answers of the protocol stack, data values and events.
\<close>

definition exampleExternals :: externals where
  "exampleExternals =
     \<lparr>StatusCodeOK = (\<lambda>c. c = 0),
      StatusCodeError = (\<lambda>c. if c = 0 then ''OK (0x0)'' else ''Bad (0x80000000)''),
      TrimSpace = (\<lambda>s. s),
      TypeIDString = (\<lambda>t. if t = TypeIDDouble then ''TypeIDDouble'' else ''TypeIDNull''),
      FormatTime = (\<lambda>t layout. layout),
      DataChangeTriggerFromString =
        (\<lambda>s. if s = ''Status'' then 0 else if s = ''StatusValue'' then 1 else 2),
      DeadbandTypeFromString = (\<lambda>s. if s = ''Absolute'' then 1 else 2),
      NilNodeIDString = None,
      clock = (\<lambda>k. int k)\<rparr>"

definition mkRequest :: "string \<Rightarrow> 32 word \<Rightarrow> MonitoredItemCreateRequest" where
  "mkRequest nodeId handle =
     \<lparr>ItemToMonitor = nodeId,
      RequestedParams = \<lparr>rp_ClientHandle = handle, rp_SamplingInterval = Float 0,
                         rp_Filter = None, rp_QueueSize = 10, rp_DiscardOldest = True\<rparr>\<rparr>"


definition mkInputConfig :: "string \<Rightarrow> string list \<Rightarrow> InputClientConfig" where
  "mkInputConfig ts opt =
     \<lparr>Endpoint = ''opc.tcp://localhost:4840'', OptionalFields = opt, MetricName = ''opcua'',
      Timestamp = ts, TimestampFormat = ''2006-01-02T15:04:05Z07:00'', RootNodes = [], Groups = []\<rparr>"

definition mkSubscribeConfig :: "string \<Rightarrow> subscribeClientConfig" where
  "mkSubscribeConfig behavior =
     \<lparr>Endpoint = ''opc.tcp://localhost:4840'', OptionalFields = [], MetricName = ''opcua'',
      Timestamp = ''source'', TimestampFormat = ''2006-01-02T15:04:05Z07:00'', RootNodes = [],
      Groups = [], SubscriptionInterval = 100000000, ConnectFailBehavior = behavior\<rparr>"

definition mkClient ::
  "string \<Rightarrow> NodeMetricMapping list \<Rightarrow> (32 word, EventNodeMetricMapping) gomap \<Rightarrow> subscribeClient"
where
  "mkClient behavior nmms events =
     \<lparr>Config = mkInputConfig ''source'' [], Log = [], clockReads = 0, NodeMetricMapping = nmms,
      NodeIDs = map idStr nmms,
      LastReceivedData =
        map (\<lambda>nmm. \<lparr>TagName = FieldName (Tag nmm), Value = NilValue, Quality = 0,
                     ServerTime = 0, SourceTime = 0, DataType = TypeIDNull\<rparr>) nmms,
      EventClientHandle = events,
      scConfig = mkSubscribeConfig behavior, sub = None,
      monitoredItemsReqs = map (\<lambda>(i, nmm). mkRequest (idStr nmm) (of_nat i)) (enumerate 0 nmms),
      eventItemsReqs = map (\<lambda>(h, ev). mkRequest (case ev_NodeID ev of None \<Rightarrow> [] | Some s \<Rightarrow> s) h) events,
      metrics = Some [], eventMetrics = None, protocolCalls = [], goroutines = 0\<rparr>"

definition tempMapping :: NodeMetricMapping where
  "tempMapping = mkMapping ''opcua'' (mkNode ''temp'' ''3'' ''s'' ''Temperature'' []) []"


definition taggedMapping :: NodeMetricMapping where
  "taggedMapping =
     mkMapping ''opcua'' (mkNode ''temp'' ''3'' ''s'' ''Temperature'' [(''id'', ''custom'')])
       [(''id'', ''custom'')]"

definition failingConnect :: environment where
  "failingConnect = \<lparr>ConnectResult = Some (ConnectError ''connection refused''),
                     SubscribeResult = Inr 1, MonitorResult = (\<lambda>reqs. Inr (map (\<lambda>r. 0) reqs))\<rparr>"


definition eventNode :: EventNodeMetricMapping where
  "eventNode = \<lparr>ev_NodeID = Some ''ns=3;s=Boiler'', ev_Fields = [''Severity'', ''Message'']\<rparr>"


definition mkDataValue :: "32 word \<Rightarrow> Variant option \<Rightarrow> int \<Rightarrow> int \<Rightarrow> DataValue" where
  "mkDataValue st v server source =
     \<lparr>dv_Value = v, dv_Status = st, dv_ServerTimestamp = server, dv_SourceTimestamp = source\<rparr>"

definition doubleVariant :: "real \<Rightarrow> Variant" where
  "doubleVariant r = \<lparr>VariantType = TypeIDDouble, VariantValue = Float64 (Float r)\<rparr>"

definition mkItem :: "32 word \<Rightarrow> DataValue \<Rightarrow> MonitoredItemNotification" where
  "mkItem h d = \<lparr>ClientHandle = h, ItemValue = Some d\<rparr>"

definition warmClient :: subscribeClient where
  "warmClient = (mkClient ''error'' [tempMapping] [])
     \<lparr>LastReceivedData := [\<lparr>TagName = ''temp'', Value = Float64 (Float 21.5), Quality = 0,
                             ServerTime = 5, SourceTime = 6, DataType = TypeIDDouble\<rparr>]\<rparr>"

definition taggedClient :: subscribeClient where
  "taggedClient = (mkClient ''error'' [taggedMapping] [])
     \<lparr>LastReceivedData := [\<lparr>TagName = ''temp'', Value = Float64 (Float 79), Quality = 0,
                             ServerTime = 100, SourceTime = 101, DataType = TypeIDDouble\<rparr>]\<rparr>"



section \<open>Properties of the point mapping builder\<close>

subsection \<open>Maps\<close>

lemma map_of_rev_distinct: "distinct (map fst xs) \<Longrightarrow> map_of (rev xs) = map_of xs"
proof (induction xs)
  case Nil
  then show ?case by simp
next
  case (Cons e xs)
  obtain a b where e: "e = (a, b)" by (cases e)
  from Cons.prems have "map_of xs a = None"
    by (simp add: e map_of_eq_None_iff)
  moreover from Cons have "map_of (rev xs) = map_of xs" by simp
  ultimately show ?case
    by (auto simp: e map_add_def fun_eq_iff split: option.splits)
qed

lemma range_assign_map_of:
  "map_of (range_assign src dst) = map_of dst ++ map_of (rev src)"
proof (induction src arbitrary: dst)
  case Nil
  then show ?case by (simp add: range_assign_def)
next
  case (Cons e src)
  obtain k v where e: "e = (k, v)" by (cases e)
  have "map_of (range_assign (e # src) dst) = map_of (range_assign src (AList.update k v dst))"
    by (simp add: range_assign_def e)
  also have "\<dots> = map_of (AList.update k v dst) ++ map_of (rev src)"
    by (rule Cons.IH)
  also have "\<dots> = map_of dst ++ map_of (rev (e # src))"
    by (simp add: update_conv' e map_add_upd_left fun_eq_iff map_add_def split: option.splits)
  finally show ?case .
qed

lemma range_assign_wf:
  "wf_gomap dst \<Longrightarrow> wf_gomap (range_assign src dst)"
  unfolding wf_gomap_def range_assign_def
  by (induction src arbitrary: dst) (auto simp: distinct_update)

lemma range_assign_map_of_wf:
  "wf_gomap src \<Longrightarrow> map_of (range_assign src dst) = map_of dst ++ map_of src"
  by (simp add: range_assign_map_of wf_gomap_def map_of_rev_distinct)

lemma NewNodeMetricMapping_wf:
  "NewNodeMetricMapping name node G = Inr nmm \<Longrightarrow> wf_gomap (MetricTags nmm)"
proof -
  have "wf_gomap ([] :: (string, string) gomap)" by (simp add: wf_gomap_def)
  then have "\<And>x. wf_gomap (range_assign x (range_assign G []))"
    by (intro range_assign_wf)
  then show "NewNodeMetricMapping name node G = Inr nmm \<Longrightarrow> wf_gomap (MetricTags nmm)"
    unfolding NewNodeMetricMapping_def Let_def
    by (auto split: sum.splits)
qed













subsection \<open>The tag string\<close>










subsection \<open>The loops of the build\<close>















subsection \<open>Claim C1: detection of duplicates\<close>









subsection \<open>Claim C2: the order of the checks\<close>



subsection \<open>Claim C3: the merged tags\<close>

text \<open>
  C3. For a group tag map \<open>G\<close> and the tag map \<open>N\<close> of a node (its default
  tags, or the map of its tag pairs when it has no default tags), the mapping is built
  and its tags are \<open>G\<close> overridden by \<open>N\<close>: every key of \<open>N\<close> has the value
  of \<open>N\<close>, and every other key has what \<open>G\<close> gives it, a value or nothing.
\<close>

theorem C3_tag_merge:
  assumes "wf_gomap G" and "wf_gomap N"
    and "(DefaultTags node = N \<and> (N \<noteq> [] \<or> TagsSlice node = [])) \<or>
         (DefaultTags node = [] \<and> TagsSlice node \<noteq> [] \<and>
          tagsSliceToMap (TagsSlice node) = Inr N)"
  shows "\<exists>nmm. NewNodeMetricMapping name node G = Inr nmm \<and> wf_gomap (MetricTags nmm) \<and>
          (\<forall>k v. map_of N k = Some v \<longrightarrow> map_of (MetricTags nmm) k = Some v) \<and>
          (\<forall>k. map_of N k = None \<longrightarrow> map_of (MetricTags nmm) k = map_of G k)"
proof -
  define nmm where "nmm = \<lparr>Tag = node, idStr = NodeID node, metricName = name,
                MetricTags = range_assign N (range_assign G [])\<rparr>"
  from assms(3) have new: "NewNodeMetricMapping name node G = Inr nmm"
    unfolding NewNodeMetricMapping_def Let_def nmm_def by auto
  have m: "map_of (MetricTags nmm) = map_of G ++ map_of N"
    using assms(1,2) by (simp add: nmm_def range_assign_map_of_wf)
  have "\<forall>k v. map_of N k = Some v \<longrightarrow> map_of (MetricTags nmm) k = Some v"
    by (simp add: m)
  moreover have "\<forall>k. map_of N k = None \<longrightarrow> map_of (MetricTags nmm) k = map_of G k"
    by (simp add: m map_add_def)
  moreover note new NewNodeMetricMapping_wf[OF new]
  ultimately show ?thesis by blast
qed

text \<open>
  C3 at the group tags \<open>{a:1}\<close> and the node tags \<open>{a:2, b:3}\<close>: the merged
  tags are \<open>{a:2, b:3}\<close>.
\<close>

theorem C3_tag_merge_witness:
  "\<exists>nmm. NewNodeMetricMapping ''opcua''
            (mkNode ''f'' ''3'' ''s'' ''x'' [(''a'', ''2''), (''b'', ''3'')]) [(''a'', ''1'')] = Inr nmm \<and>
         map_of (MetricTags nmm) ''a'' = Some ''2'' \<and>
         map_of (MetricTags nmm) ''b'' = Some ''3'' \<and>
         map_of (MetricTags nmm) ''c'' = None"
proof -
  define node where "node = mkNode ''f'' ''3'' ''s'' ''x'' [(''a'', ''2''), (''b'', ''3'')]"
  have h: "wf_gomap [(''a'', ''1'')]" "wf_gomap [(''a'', ''2''), (''b'', ''3'')]"
    "(DefaultTags node = [(''a'', ''2''), (''b'', ''3'')] \<and>
       ([(''a'', ''2''), (''b'', ''3'')] \<noteq> [] \<or> TagsSlice node = [])) \<or>
     (DefaultTags node = [] \<and> TagsSlice node \<noteq> [] \<and>
       tagsSliceToMap (TagsSlice node) = Inr [(''a'', ''2''), (''b'', ''3'')])"
    by (simp_all add: wf_gomap_def node_def mkNode_def)
  from C3_tag_merge[OF h, of "''opcua''"] obtain nmm where
    n: "NewNodeMetricMapping ''opcua'' node [(''a'', ''1'')] = Inr nmm"
    and a: "\<forall>k v. map_of [(''a'', ''2''), (''b'', ''3'')] k = Some v \<longrightarrow> map_of (MetricTags nmm) k = Some v"
    and b: "\<forall>k. map_of [(''a'', ''2''), (''b'', ''3'')] k = None \<longrightarrow> map_of (MetricTags nmm) k = map_of [(''a'', ''1'')] k"
    by blast
  from a have "map_of (MetricTags nmm) ''a'' = Some ''2''" "map_of (MetricTags nmm) ''b'' = Some ''3''"
    by simp_all
  moreover from b have "map_of (MetricTags nmm) ''c'' = None" by simp
  ultimately show ?thesis using n unfolding node_def by blast
qed



section \<open>Properties of the subscribe client\<close>


subsection \<open>Claim C4: the change filter\<close>



lemma connect_keeps:
  "connect E c = (r, c1) \<Longrightarrow>
     scConfig c1 = scConfig c \<and> monitoredItemsReqs c1 = monitoredItemsReqs c \<and>
     eventItemsReqs c1 = eventItemsReqs c \<and> NodeMetricMapping c1 = NodeMetricMapping c \<and>
     NodeIDs c1 = NodeIDs c \<and> metrics c1 = metrics c \<and> goroutines c1 = goroutines c"
  unfolding connect_def Let_def logs_def
  by (auto split: option.splits sum.splits)

subsection \<open>Claims C5 and C10: starting a stream\<close>

text \<open>
  C5. When the connect of a start operation fails with an error, startStreamValues (for a
  client with requests for items) and startStreamEvents (for a client with requests for
  events) return a nil channel, and a nil error if the connect fail behavior is
  \<open>retry\<close> or \<open>ignore\<close>, the error of the connect with any other setting.
\<close>

theorem C5_connect_failure:
  assumes "connect E c = (Some err, c1)"
  shows "(monitoredItemsReqs c \<noteq> [] \<longrightarrow>
           (\<exists>c'. startStreamValues X E c =
              Done ((None, if ConnectFailBehavior (scConfig c) = ''retry'' \<or>
                              ConnectFailBehavior (scConfig c) = ''ignore''
                           then None else Some err), c')))
       \<and> (eventItemsReqs c \<noteq> [] \<longrightarrow>
           (\<exists>c'. startStreamEvents X E c =
              Done ((None, if ConnectFailBehavior (scConfig c) = ''retry'' \<or>
                              ConnectFailBehavior (scConfig c) = ''ignore''
                           then None else Some err), c')))"
proof -
  from connect_keeps[OF assms] have k: "scConfig c1 = scConfig c" by simp
  show ?thesis
    using assms k by (simp add: startStreamValues_def startStreamEvents_def)
qed

text \<open>
  C10. With no request for items, startStreamValues returns a nil channel and a nil error
  and leaves the client as it was: nothing is logged, no call is made to the protocol
  stack and no loop is started. The same holds for startStreamEvents with no request for
  events.
\<close>

theorem C10_no_requests:
  "(monitoredItemsReqs c = [] \<longrightarrow> startStreamValues X E c = Done ((None, None), c))
   \<and> (eventItemsReqs c = [] \<longrightarrow> startStreamEvents X E c = Done ((None, None), c))"
  by (simp add: startStreamValues_def startStreamEvents_def)

lemmas client_defs = mkClient_def mkSubscribeConfig_def mkInputConfig_def mkRequest_def
  tempMapping_def mkMapping_def mkNode_def NodeID_def

text \<open>
  C10 at a client with no mapping, and at a client with one mapping and no event, against
  a server that refuses connections.
\<close>

theorem C10_no_requests_witness:
  "startStreamValues exampleExternals failingConnect (mkClient ''error'' [] [])
     = Done ((None, None), mkClient ''error'' [] [])
   \<and> startStreamEvents exampleExternals failingConnect (mkClient ''error'' [tempMapping] [])
     = Done ((None, None), mkClient ''error'' [tempMapping] [])"
proof -
  have "monitoredItemsReqs (mkClient ''error'' [] []) = []"
    and "eventItemsReqs (mkClient ''error'' [tempMapping] []) = []"
    by (simp_all add: mkClient_def)
  then show ?thesis
    using C10_no_requests[of "mkClient ''error'' [] []" exampleExternals failingConnect]
      C10_no_requests[of "mkClient ''error'' [tempMapping] []" exampleExternals failingConnect]
    by blast
qed

text \<open>C5 at a server that refuses connections, for each connect fail behavior.\<close>

theorem C5_connect_failure_witness:
  "(\<exists>c'. startStreamValues exampleExternals failingConnect (mkClient ''retry'' [tempMapping] [])
           = Done ((None, None), c'))
   \<and> (\<exists>c'. startStreamValues exampleExternals failingConnect (mkClient ''ignore'' [tempMapping] [])
           = Done ((None, None), c'))
   \<and> (\<exists>c'. startStreamValues exampleExternals failingConnect (mkClient ''error'' [tempMapping] [])
           = Done ((None, Some (ConnectError ''connection refused'')), c'))
   \<and> (\<exists>c'. startStreamEvents exampleExternals failingConnect (mkClient ''retry'' [] [(0, eventNode)])
           = Done ((None, None), c'))
   \<and> (\<exists>c'. startStreamEvents exampleExternals failingConnect (mkClient ''bogus'' [] [(0, eventNode)])
           = Done ((None, Some (ConnectError ''connection refused'')), c'))"
proof -
  have conn: "connect failingConnect c =
      (Some (ConnectError ''connection refused''), c\<lparr>protocolCalls := protocolCalls c @ [CallConnect]\<rparr>)"
    for c
    by (simp add: connect_def failingConnect_def)
  have v: "monitoredItemsReqs (mkClient b [tempMapping] []) \<noteq> []" for b
    by (simp add: mkClient_def)
  have e: "eventItemsReqs (mkClient b [] [(0, eventNode)]) \<noteq> []" for b
    by (simp add: mkClient_def)
  have b: "ConnectFailBehavior (scConfig (mkClient b nm ev)) = b" for b nm ev
    by (simp add: mkClient_def mkSubscribeConfig_def)
  note T = C5_connect_failure[OF conn, of _ exampleExternals]
  from T[of "mkClient ''retry'' [tempMapping] []", THEN conjunct1, THEN mp, OF v]
  have 1: "\<exists>c'. startStreamValues exampleExternals failingConnect (mkClient ''retry'' [tempMapping] [])
           = Done ((None, None), c')"
    by (simp add: b)
  from T[of "mkClient ''ignore'' [tempMapping] []", THEN conjunct1, THEN mp, OF v]
  have 2: "\<exists>c'. startStreamValues exampleExternals failingConnect (mkClient ''ignore'' [tempMapping] [])
           = Done ((None, None), c')"
    by (simp add: b)
  from T[of "mkClient ''error'' [tempMapping] []", THEN conjunct1, THEN mp, OF v]
  have 3: "\<exists>c'. startStreamValues exampleExternals failingConnect (mkClient ''error'' [tempMapping] [])
           = Done ((None, Some (ConnectError ''connection refused'')), c')"
    by (simp add: b)
  from T[of "mkClient ''retry'' [] [(0, eventNode)]", THEN conjunct2, THEN mp, OF e]
  have 4: "\<exists>c'. startStreamEvents exampleExternals failingConnect (mkClient ''retry'' [] [(0, eventNode)])
           = Done ((None, None), c')"
    by (simp add: b)
  from T[of "mkClient ''bogus'' [] [(0, eventNode)]", THEN conjunct2, THEN mp, OF e]
  have 5: "\<exists>c'. startStreamEvents exampleExternals failingConnect (mkClient ''bogus'' [] [(0, eventNode)])
           = Done ((None, Some (ConnectError ''connection refused'')), c')"
    by (simp add: b)
  from 1 2 3 4 5 show ?thesis by (intro conjI)
qed





subsection \<open>Claim C6: the results of the registration\<close>



lemma UpdateNodeValue_ok:
  assumes "i < length (LastReceivedData c)" "StatusCodeOK X (dv_Status d)"
  shows "UpdateNodeValue X i (Some d) c =
     Done (c\<lparr>LastReceivedData :=
              (LastReceivedData c)[i := okSlot X (TimestampFormat (Config c)) d
                                          (LastReceivedData c ! i)]\<rparr>)"
  using assms
  by (cases "dv_Value d")
     (simp_all add: UpdateNodeValue_def Let_def okSlot_def cong: go_value.case_cong)

lemma UpdateNodeValue_bad:
  assumes "i < length (LastReceivedData c)" "\<not> StatusCodeOK X (dv_Status d)"
    and "i < length (NodeMetricMapping c)"
  shows "UpdateNodeValue X i (Some d) c =
     Done (logs (Error (StatusNotOKForNode (FieldName (Tag (NodeMetricMapping c ! i)))
                   (if length (NodeIDs c) > i then NodeText (NodeIDs c ! i) else Placeholder)
                   (dv_Status d)))
            (c\<lparr>LastReceivedData :=
                 (LastReceivedData c)[i := badSlot d (LastReceivedData c ! i)]\<rparr>))"
  using assms
  by (simp add: UpdateNodeValue_def Let_def badSlot_def)

lemma UpdateNodeValue_Done:
  assumes "i < length (LastReceivedData c)" "i < length (NodeMetricMapping c)"
  shows "\<exists>c'. UpdateNodeValue X i (Some d) c = Done c' \<and>
     LastReceivedData c' =
       (LastReceivedData c)[i := slotAfter X (TimestampFormat (Config c)) d (LastReceivedData c ! i)] \<and>
     NodeMetricMapping c' = NodeMetricMapping c \<and> NodeIDs c' = NodeIDs c \<and>
     Config c' = Config c \<and> clockReads c' = clockReads c \<and>
     OpcUAInputClient.more c' = OpcUAInputClient.more c"
proof (cases "StatusCodeOK X (dv_Status d)")
  case True
  show ?thesis
    unfolding UpdateNodeValue_ok[OF assms(1) True] by (simp add: slotAfter_def True)
next
  case False
  show ?thesis
    unfolding UpdateNodeValue_bad[OF assms(1) False assms(2)]
    by (simp add: slotAfter_def False logs_def)
qed

lemma MetricForNode_Done:
  assumes "i < length (NodeMetricMapping c)" "i < length (LastReceivedData c)"
  shows "\<exists>m c'. MetricForNode X i c = Done (m, c') \<and>
     m_name m = metricName (NodeMetricMapping c ! i) \<and>
     m_tags m = range_assign (MetricTags (NodeMetricMapping c ! i))
                  [(''id'', idStr (NodeMetricMapping c ! i))] \<and>
     m_fields m =
       (let f1 = AList.update ''Quality''
                   (Str (TrimSpace X (StatusCodeError X (Quality (LastReceivedData c ! i)))))
                   [(FieldName (Tag (NodeMetricMapping c ! i)), Value (LastReceivedData c ! i))]
        in if ''DataType'' \<in> set (OptionalFields (Config c))
           then AList.update ''DataType''
                  (Str (removeFirst ''TypeID'' (TypeIDString X (DataType (LastReceivedData c ! i)))))
                  f1
           else f1) \<and>
     LastReceivedData c' = LastReceivedData c \<and>
     NodeMetricMapping c' = NodeMetricMapping c \<and> NodeIDs c' = NodeIDs c \<and>
     Config c' = Config c \<and>
     OpcUAInputClient.more c' = OpcUAInputClient.more c"
  using assms
  by (simp add: MetricForNode_def Let_def metricNew_def logs_def)

lemma more_metrics:
  "OpcUAInputClient.more c' = OpcUAInputClient.more (c :: subscribeClient) \<Longrightarrow>
     metrics c' = metrics c \<and> eventMetrics c' = eventMetrics c \<and> scConfig c' = scConfig c \<and>
     goroutines c' = goroutines c \<and> protocolCalls c' = protocolCalls c"
  by (cases c, cases c') simp

lemma processMonitoredItems_step:
  fixes c :: subscribeClient
  assumes i: "i = unat (ClientHandle item)" and v: "ItemValue item = Some d"
    and r: "i < length (LastReceivedData c)" "i < length (NodeIDs c)"
           "i < length (NodeMetricMapping c)"
    and q: "metrics c = Some q"
  shows "\<exists>m c3. processMonitoredItems X (item # items) c =
                  processMonitoredItems X items (c3\<lparr>metrics := Some (q @ [m])\<rparr>) \<and>
     LastReceivedData c3 =
       (LastReceivedData c)[i := slotAfter X (TimestampFormat (Config c)) d (LastReceivedData c ! i)] \<and>
     NodeMetricMapping c3 = NodeMetricMapping c \<and> NodeIDs c3 = NodeIDs c \<and>
     Config c3 = Config c \<and> eventMetrics c3 = eventMetrics c \<and> scConfig c3 = scConfig c \<and>
     m_name m = metricName (NodeMetricMapping c ! i) \<and>
     m_tags m = range_assign (MetricTags (NodeMetricMapping c ! i))
                  [(''id'', idStr (NodeMetricMapping c ! i))] \<and>
     m_fields m =
       (let f1 = AList.update ''Quality''
                   (Str (TrimSpace X (StatusCodeError X (Quality (LastReceivedData c3 ! i)))))
                   [(FieldName (Tag (NodeMetricMapping c ! i)), Value (LastReceivedData c3 ! i))]
        in if ''DataType'' \<in> set (OptionalFields (Config c))
           then AList.update ''DataType''
                  (Str (removeFirst ''TypeID'' (TypeIDString X (DataType (LastReceivedData c3 ! i)))))
                  f1
           else f1)"
proof -
  from UpdateNodeValue_Done[OF r(1) r(3), of X d] obtain c1 where
    u: "UpdateNodeValue X i (Some d) c = Done c1"
    and l1: "LastReceivedData c1 =
       (LastReceivedData c)[i := slotAfter X (TimestampFormat (Config c)) d (LastReceivedData c ! i)]"
    and k1: "NodeMetricMapping c1 = NodeMetricMapping c" "NodeIDs c1 = NodeIDs c"
       "Config c1 = Config c" "OpcUAInputClient.more c1 = OpcUAInputClient.more c"
    by blast
  define c2 where "c2 = logs (Debug (DataChangeValue (NodeIDs c1 ! i) (Value (LastReceivedData c ! i))
                                      (Value (LastReceivedData c1 ! i)))) c1"
  have k2: "LastReceivedData c2 = LastReceivedData c1" "NodeMetricMapping c2 = NodeMetricMapping c"
     "NodeIDs c2 = NodeIDs c" "Config c2 = Config c"
     "OpcUAInputClient.more c2 = OpcUAInputClient.more c"
    using k1 by (simp_all add: c2_def logs_def)
  have r2: "i < length (NodeMetricMapping c2)" "i < length (LastReceivedData c2)"
    using r by (simp_all add: k2 l1)
  from MetricForNode_Done[OF r2, of X] obtain m c3 where
    mf: "MetricForNode X i c2 = Done (m, c3)"
    and m: "m_name m = metricName (NodeMetricMapping c2 ! i)"
       "m_tags m = range_assign (MetricTags (NodeMetricMapping c2 ! i))
                  [(''id'', idStr (NodeMetricMapping c2 ! i))]"
       "m_fields m =
       (let f1 = AList.update ''Quality''
                   (Str (TrimSpace X (StatusCodeError X (Quality (LastReceivedData c2 ! i)))))
                   [(FieldName (Tag (NodeMetricMapping c2 ! i)), Value (LastReceivedData c2 ! i))]
        in if ''DataType'' \<in> set (OptionalFields (Config c2))
           then AList.update ''DataType''
                  (Str (removeFirst ''TypeID'' (TypeIDString X (DataType (LastReceivedData c2 ! i)))))
                  f1
           else f1)"
    and k3: "LastReceivedData c3 = LastReceivedData c2" "NodeMetricMapping c3 = NodeMetricMapping c2"
       "NodeIDs c3 = NodeIDs c2" "Config c3 = Config c2"
       "OpcUAInputClient.more c3 = OpcUAInputClient.more c2"
    by blast
  from k3(5) k2(5) have "OpcUAInputClient.more c3 = OpcUAInputClient.more c" by simp
  from more_metrics[OF this] q have mm: "metrics c3 = Some q" "eventMetrics c3 = eventMetrics c"
    "scConfig c3 = scConfig c" by simp_all
  have p: "processMonitoredItems X (item # items) c =
          processMonitoredItems X items (c3\<lparr>metrics := Some (q @ [m])\<rparr>)"
    using r u mf mm(1) k1(2) unfolding i[symmetric] c2_def
    by (simp add: Let_def i[symmetric] send_def v)
  have e1: "LastReceivedData c3 =
       (LastReceivedData c)[i := slotAfter X (TimestampFormat (Config c)) d (LastReceivedData c ! i)]"
    by (simp only: k3(1) k2(1) l1)
  have e2: "NodeMetricMapping c3 = NodeMetricMapping c" "NodeIDs c3 = NodeIDs c" "Config c3 = Config c"
    by (simp_all only: k3 k2)
  from m(1) have n: "m_name m = metricName (NodeMetricMapping c ! i)"
    by (simp only: k2(2))
  from m(2) have t: "m_tags m = range_assign (MetricTags (NodeMetricMapping c ! i))
                  [(''id'', idStr (NodeMetricMapping c ! i))]"
    by (simp only: k2(2))
  from m(3) have f: "m_fields m =
       (let f1 = AList.update ''Quality''
                   (Str (TrimSpace X (StatusCodeError X (Quality (LastReceivedData c3 ! i)))))
                   [(FieldName (Tag (NodeMetricMapping c ! i)), Value (LastReceivedData c3 ! i))]
        in if ''DataType'' \<in> set (OptionalFields (Config c))
           then AList.update ''DataType''
                  (Str (removeFirst ''TypeID'' (TypeIDString X (DataType (LastReceivedData c3 ! i)))))
                  f1
           else f1)"
    by (simp only: k3(1) k2(2) k2(4))
  show ?thesis
    apply (rule exI[of _ m])
    apply (rule exI[of _ c3])
    using p e1 e2 mm(2,3) n t f by (intro conjI)
qed

lemma processMonitoredItems_append:
  "processMonitoredItems X (items1 @ items2) c =
     (case processMonitoredItems X items1 c of
        Done c1 \<Rightarrow> processMonitoredItems X items2 c1
      | Panic \<Rightarrow> Panic
      | Blocked \<Rightarrow> Blocked)"
proof (induction items1 arbitrary: c)
  case Nil
  then show ?case by simp
next
  case (Cons item items1)
  show ?case
    by (simp add: Cons.IH Let_def split: outcome.splits prod.splits)
qed

lemma slotAfter_fields:
  "Quality (slotAfter X layout d old) = dv_Status d"
  "TagName (slotAfter X layout d old) = TagName old"
  "StatusCodeOK X (dv_Status d) \<Longrightarrow> ServerTime (slotAfter X layout d old) = dv_ServerTimestamp d"
  "StatusCodeOK X (dv_Status d) \<Longrightarrow> SourceTime (slotAfter X layout d old) = dv_SourceTimestamp d"
  "StatusCodeOK X (dv_Status d) \<Longrightarrow> dv_Value d = None \<Longrightarrow>
     Value (slotAfter X layout d old) = Value old \<and> DataType (slotAfter X layout d old) = DataType old"
  "StatusCodeOK X (dv_Status d) \<Longrightarrow> dv_Value d = Some v \<Longrightarrow>
     DataType (slotAfter X layout d old) = VariantType v \<and>
     Value (slotAfter X layout d old) =
       (if VariantType v = TypeIDDateTime
        then (case VariantValue v of TimeValue t \<Rightarrow> Str (FormatTime X t layout) | other \<Rightarrow> other)
        else VariantValue v)"
  "\<not> StatusCodeOK X (dv_Status d) \<Longrightarrow>
     Value (slotAfter X layout d old) = Value old \<and>
     ServerTime (slotAfter X layout d old) = ServerTime old \<and>
     SourceTime (slotAfter X layout d old) = SourceTime old \<and>
     DataType (slotAfter X layout d old) = DataType old"
  by (simp_all add: slotAfter_def okSlot_def badSlot_def)

lemma fields_lookup:
  assumes "m_fields m =
       (let f1 = AList.update ''Quality'' qv [(fname, fv)]
        in if dt then AList.update ''DataType'' dv f1 else f1)"
  shows "map_of (m_fields m) ''Quality'' = Some qv"
    and "fname \<noteq> ''Quality'' \<Longrightarrow> (dt \<longrightarrow> fname \<noteq> ''DataType'') \<Longrightarrow>
           map_of (m_fields m) fname = Some fv"
    and "dt \<Longrightarrow> map_of (m_fields m) ''DataType'' = Some dv"
    and "dom (map_of (m_fields m)) = {fname, ''Quality''} \<union> (if dt then {''DataType''} else {})"
  unfolding assms Let_def
  by (auto simp: update_conv' dom_def)

lemma itemReady_cong:
  "length (LastReceivedData c') = length (LastReceivedData c) \<Longrightarrow> NodeIDs c' = NodeIDs c \<Longrightarrow>
   NodeMetricMapping c' = NodeMetricMapping c \<Longrightarrow> itemReady c' item = itemReady c item"
  by (simp add: itemReady_def)

lemma processMonitoredItems_all:
  fixes c :: subscribeClient
  assumes "\<forall>item \<in> set items. itemReady c item" and "metrics c = Some q"
  shows "\<exists>c' ms. processMonitoredItems X items c = Done c' \<and> metrics c' = Some (q @ ms) \<and>
           length ms = length items \<and>
           (\<forall>k < length items.
              m_name (ms ! k) = metricName (NodeMetricMapping c ! unat (ClientHandle (items ! k))))"
  using assms
proof (induction items arbitrary: c q)
  case Nil
  then show ?case by simp
next
  case (Cons item items)
  let ?i = "unat (ClientHandle item)"
  from Cons.prems(1) have rdy: "itemReady c item" by simp
  then obtain d where d: "ItemValue item = Some d"
    by (auto simp: itemReady_def)
  from rdy have r: "?i < length (LastReceivedData c)" "?i < length (NodeIDs c)"
      "?i < length (NodeMetricMapping c)"
    by (simp_all add: itemReady_def)
  from processMonitoredItems_step[OF refl d r Cons.prems(2), of X items] obtain m c3 where
    p: "processMonitoredItems X (item # items) c =
          processMonitoredItems X items (c3\<lparr>metrics := Some (q @ [m])\<rparr>)"
    and l: "LastReceivedData c3 =
       (LastReceivedData c)[?i := slotAfter X (TimestampFormat (Config c)) d (LastReceivedData c ! ?i)]"
    and k: "NodeMetricMapping c3 = NodeMetricMapping c" "NodeIDs c3 = NodeIDs c"
    and n: "m_name m = metricName (NodeMetricMapping c ! ?i)"
    by blast
  define c4 where "c4 = c3\<lparr>metrics := Some (q @ [m])\<rparr>"
  have same: "length (LastReceivedData c4) = length (LastReceivedData c)"
      "NodeIDs c4 = NodeIDs c" "NodeMetricMapping c4 = NodeMetricMapping c"
    by (simp_all add: c4_def l k)
  have "\<forall>item \<in> set items. itemReady c4 item"
    using Cons.prems(1) by (simp add: itemReady_cong[OF same])
  moreover have "metrics c4 = Some (q @ [m])" by (simp add: c4_def)
  ultimately obtain c' ms where
    a: "processMonitoredItems X items c4 = Done c'" "metrics c' = Some ((q @ [m]) @ ms)"
       "length ms = length items"
    and b: "\<forall>k < length items.
              m_name (ms ! k) = metricName (NodeMetricMapping c4 ! unat (ClientHandle (items ! k)))"
    using Cons.IH[of c4 "q @ [m]"] by blast
  have "\<forall>k < length (item # items).
          m_name ((m # ms) ! k) =
            metricName (NodeMetricMapping c ! unat (ClientHandle ((item # items) ! k)))"
  proof (intro allI impI)
    fix k assume "k < length (item # items)"
    then show "m_name ((m # ms) ! k) =
            metricName (NodeMetricMapping c ! unat (ClientHandle ((item # items) ! k)))"
      using n b same(3) by (cases k) simp_all
  qed
  moreover have "processMonitoredItems X (item # items) c = Done c'"
    using p a(1) by (simp add: c4_def)
  moreover have "metrics c' = Some (q @ (m # ms))" using a(2) by simp
  moreover have "length (m # ms) = length (item # items)" using a(3) by simp
  ultimately show ?case by blast
qed

subsection \<open>Claim C7: a data change notification\<close>

text \<open>
  C7, as amended. An item that can be processed is handled so: the slot of the cache at
  its handle gets the status of the notification as its quality, and no other slot
  changes. If the status is accepted the slot also gets both timestamps and, when the
  notification has a value, its type and its value (for the date and time type, when the
  value is a time, the text of that time in the configured layout). If the status is not
  accepted the value, the type and both timestamps of the slot stay as they were. Then
  exactly one measurement is sent for that index, built from the slot as it now is. A
  notification whose items can all be processed yields one measurement for each item, in
  the order of the items, and processing a list of items is processing a first part
  and then the rest.
\<close>

theorem C7_data_change:
  fixes c c0 :: subscribeClient
  assumes "itemReady c item" and "ItemValue item = Some d" and "metrics c = Some q"
    and "\<forall>it \<in> set items. itemReady c0 it" and "metrics c0 = Some q0"
  shows
    "(\<exists>c' m. processMonitoredItems X [item] c = Done c' \<and> metrics c' = Some (q @ [m]) \<and>
        m_name m = metricName (NodeMetricMapping c ! unat (ClientHandle item)) \<and>
        length (LastReceivedData c') = length (LastReceivedData c) \<and>
        (\<forall>j. j \<noteq> unat (ClientHandle item) \<longrightarrow> LastReceivedData c' ! j = LastReceivedData c ! j) \<and>
        Quality (LastReceivedData c' ! unat (ClientHandle item)) = dv_Status d \<and>
        (StatusCodeOK X (dv_Status d) \<longrightarrow>
           ServerTime (LastReceivedData c' ! unat (ClientHandle item)) = dv_ServerTimestamp d \<and>
           SourceTime (LastReceivedData c' ! unat (ClientHandle item)) = dv_SourceTimestamp d \<and>
           (case dv_Value d of
              None \<Rightarrow>
                Value (LastReceivedData c' ! unat (ClientHandle item)) =
                  Value (LastReceivedData c ! unat (ClientHandle item)) \<and>
                DataType (LastReceivedData c' ! unat (ClientHandle item)) =
                  DataType (LastReceivedData c ! unat (ClientHandle item))
            | Some v \<Rightarrow>
                DataType (LastReceivedData c' ! unat (ClientHandle item)) = VariantType v \<and>
                Value (LastReceivedData c' ! unat (ClientHandle item)) =
                  (if VariantType v = TypeIDDateTime
                   then (case VariantValue v of
                           TimeValue t \<Rightarrow> Str (FormatTime X t (TimestampFormat (Config c)))
                         | other \<Rightarrow> other)
                   else VariantValue v))) \<and>
        (\<not> StatusCodeOK X (dv_Status d) \<longrightarrow>
           Value (LastReceivedData c' ! unat (ClientHandle item)) =
             Value (LastReceivedData c ! unat (ClientHandle item)) \<and>
           ServerTime (LastReceivedData c' ! unat (ClientHandle item)) =
             ServerTime (LastReceivedData c ! unat (ClientHandle item)) \<and>
           SourceTime (LastReceivedData c' ! unat (ClientHandle item)) =
             SourceTime (LastReceivedData c ! unat (ClientHandle item)) \<and>
           DataType (LastReceivedData c' ! unat (ClientHandle item)) =
             DataType (LastReceivedData c ! unat (ClientHandle item))) \<and>
        map_of (m_fields m) ''Quality'' = Some (Str (TrimSpace X (StatusCodeError X (dv_Status d)))) \<and>
        (FieldName (Tag (NodeMetricMapping c ! unat (ClientHandle item))) \<noteq> ''Quality'' \<and>
         (''DataType'' \<in> set (OptionalFields (Config c)) \<longrightarrow>
            FieldName (Tag (NodeMetricMapping c ! unat (ClientHandle item))) \<noteq> ''DataType'')
         \<longrightarrow> map_of (m_fields m) (FieldName (Tag (NodeMetricMapping c ! unat (ClientHandle item)))) =
               Some (Value (LastReceivedData c' ! unat (ClientHandle item)))))
     \<and> (\<exists>c' ms. processMonitoredItems X items c0 = Done c' \<and> metrics c' = Some (q0 @ ms) \<and>
           length ms = length items \<and>
           (\<forall>k < length items.
              m_name (ms ! k) = metricName (NodeMetricMapping c0 ! unat (ClientHandle (items ! k)))))
     \<and> processMonitoredItems X (items1 @ items2) c0 =
         (case processMonitoredItems X items1 c0 of
            Done c1 \<Rightarrow> processMonitoredItems X items2 c1
          | Panic \<Rightarrow> Panic
          | Blocked \<Rightarrow> Blocked)"
proof (intro conjI)
  let ?i = "unat (ClientHandle item)"
  let ?old = "LastReceivedData c ! ?i"
  let ?new = "slotAfter X (TimestampFormat (Config c)) d ?old"
  from assms(1) have r: "?i < length (LastReceivedData c)" "?i < length (NodeIDs c)"
      "?i < length (NodeMetricMapping c)"
    by (simp_all add: itemReady_def)
  from processMonitoredItems_step[OF refl assms(2) r assms(3), of X "[]"] obtain m c3 where
    p: "processMonitoredItems X [item] c = processMonitoredItems X [] (c3\<lparr>metrics := Some (q @ [m])\<rparr>)"
    and l: "LastReceivedData c3 = (LastReceivedData c)[?i := ?new]"
    and n: "m_name m = metricName (NodeMetricMapping c ! ?i)"
    and f: "m_fields m =
       (let f1 = AList.update ''Quality''
                   (Str (TrimSpace X (StatusCodeError X (Quality (LastReceivedData c3 ! ?i)))))
                   [(FieldName (Tag (NodeMetricMapping c ! ?i)), Value (LastReceivedData c3 ! ?i))]
        in if ''DataType'' \<in> set (OptionalFields (Config c))
           then AList.update ''DataType''
                  (Str (removeFirst ''TypeID'' (TypeIDString X (DataType (LastReceivedData c3 ! ?i)))))
                  f1
           else f1)"
    by blast
  define c' where "c' = c3\<lparr>metrics := Some (q @ [m])\<rparr>"
  have l': "LastReceivedData c' = (LastReceivedData c)[?i := ?new]" by (simp add: c'_def l)
  have at: "LastReceivedData c' ! ?i = ?new" using r(1) by (simp add: l')
  have at3: "LastReceivedData c3 ! ?i = ?new" using r(1) by (simp add: l)
  have 1: "processMonitoredItems X [item] c = Done c'" using p by (simp add: c'_def)
  have 2: "metrics c' = Some (q @ [m])" by (simp add: c'_def)
  have 3: "length (LastReceivedData c') = length (LastReceivedData c)" by (simp add: l')
  have 4: "\<forall>j. j \<noteq> ?i \<longrightarrow> LastReceivedData c' ! j = LastReceivedData c ! j" by (simp add: l')
  have 5: "Quality (LastReceivedData c' ! ?i) = dv_Status d"
    by (simp add: at slotAfter_fields)
  have 6: "StatusCodeOK X (dv_Status d) \<longrightarrow>
           ServerTime (LastReceivedData c' ! ?i) = dv_ServerTimestamp d \<and>
           SourceTime (LastReceivedData c' ! ?i) = dv_SourceTimestamp d \<and>
           (case dv_Value d of
              None \<Rightarrow>
                Value (LastReceivedData c' ! ?i) = Value ?old \<and>
                DataType (LastReceivedData c' ! ?i) = DataType ?old
            | Some v \<Rightarrow>
                DataType (LastReceivedData c' ! ?i) = VariantType v \<and>
                Value (LastReceivedData c' ! ?i) =
                  (if VariantType v = TypeIDDateTime
                   then (case VariantValue v of
                           TimeValue t \<Rightarrow> Str (FormatTime X t (TimestampFormat (Config c)))
                         | other \<Rightarrow> other)
                   else VariantValue v))"
    unfolding at by (cases "dv_Value d") (simp_all add: slotAfter_fields)
  have 7: "\<not> StatusCodeOK X (dv_Status d) \<longrightarrow>
           Value (LastReceivedData c' ! ?i) = Value ?old \<and>
           ServerTime (LastReceivedData c' ! ?i) = ServerTime ?old \<and>
           SourceTime (LastReceivedData c' ! ?i) = SourceTime ?old \<and>
           DataType (LastReceivedData c' ! ?i) = DataType ?old"
    unfolding at by (simp add: slotAfter_fields)
  have 8: "map_of (m_fields m) ''Quality'' = Some (Str (TrimSpace X (StatusCodeError X (dv_Status d))))"
    using fields_lookup(1)[OF f] by (simp add: at3 slotAfter_fields)
  have 9: "FieldName (Tag (NodeMetricMapping c ! ?i)) \<noteq> ''Quality'' \<and>
         (''DataType'' \<in> set (OptionalFields (Config c)) \<longrightarrow>
            FieldName (Tag (NodeMetricMapping c ! ?i)) \<noteq> ''DataType'')
         \<longrightarrow> map_of (m_fields m) (FieldName (Tag (NodeMetricMapping c ! ?i))) =
               Some (Value (LastReceivedData c' ! ?i))"
    using fields_lookup(2)[OF f] by (simp add: at at3)
  show "\<exists>c' m. processMonitoredItems X [item] c = Done c' \<and> metrics c' = Some (q @ [m]) \<and>
        m_name m = metricName (NodeMetricMapping c ! ?i) \<and>
        length (LastReceivedData c') = length (LastReceivedData c) \<and>
        (\<forall>j. j \<noteq> ?i \<longrightarrow> LastReceivedData c' ! j = LastReceivedData c ! j) \<and>
        Quality (LastReceivedData c' ! ?i) = dv_Status d \<and>
        (StatusCodeOK X (dv_Status d) \<longrightarrow>
           ServerTime (LastReceivedData c' ! ?i) = dv_ServerTimestamp d \<and>
           SourceTime (LastReceivedData c' ! ?i) = dv_SourceTimestamp d \<and>
           (case dv_Value d of
              None \<Rightarrow>
                Value (LastReceivedData c' ! ?i) = Value ?old \<and>
                DataType (LastReceivedData c' ! ?i) = DataType ?old
            | Some v \<Rightarrow>
                DataType (LastReceivedData c' ! ?i) = VariantType v \<and>
                Value (LastReceivedData c' ! ?i) =
                  (if VariantType v = TypeIDDateTime
                   then (case VariantValue v of
                           TimeValue t \<Rightarrow> Str (FormatTime X t (TimestampFormat (Config c)))
                         | other \<Rightarrow> other)
                   else VariantValue v))) \<and>
        (\<not> StatusCodeOK X (dv_Status d) \<longrightarrow>
           Value (LastReceivedData c' ! ?i) = Value ?old \<and>
           ServerTime (LastReceivedData c' ! ?i) = ServerTime ?old \<and>
           SourceTime (LastReceivedData c' ! ?i) = SourceTime ?old \<and>
           DataType (LastReceivedData c' ! ?i) = DataType ?old) \<and>
        map_of (m_fields m) ''Quality'' = Some (Str (TrimSpace X (StatusCodeError X (dv_Status d)))) \<and>
        (FieldName (Tag (NodeMetricMapping c ! ?i)) \<noteq> ''Quality'' \<and>
         (''DataType'' \<in> set (OptionalFields (Config c)) \<longrightarrow>
            FieldName (Tag (NodeMetricMapping c ! ?i)) \<noteq> ''DataType'')
         \<longrightarrow> map_of (m_fields m) (FieldName (Tag (NodeMetricMapping c ! ?i))) =
               Some (Value (LastReceivedData c' ! ?i)))"
    apply (rule exI[of _ c'])
    apply (rule exI[of _ m])
    using 1 2 n 3 4 5 6 7 8 9 by (intro conjI)
next
  show "\<exists>c' ms. processMonitoredItems X items c0 = Done c' \<and> metrics c' = Some (q0 @ ms) \<and>
           length ms = length items \<and>
           (\<forall>k < length items.
              m_name (ms ! k) = metricName (NodeMetricMapping c0 ! unat (ClientHandle (items ! k))))"
    by (rule processMonitoredItems_all[OF assms(4,5)])
next
  show "processMonitoredItems X (items1 @ items2) c0 =
         (case processMonitoredItems X items1 c0 of
            Done c1 \<Rightarrow> processMonitoredItems X items2 c1
          | Panic \<Rightarrow> Panic
          | Blocked \<Rightarrow> Blocked)"
    by (rule processMonitoredItems_append)
qed

lemmas data_defs = mkDataValue_def doubleVariant_def mkItem_def warmClient_def client_defs
  exampleExternals_def

text \<open>
  C7 as stated fails: a notification with a status that is not accepted, the value 79 and
  the timestamps 100 and 101 changes only the quality; the cache keeps the value 21.5
  and the timestamps 5 and 6.
\<close>

theorem C7_counterexample:
  "UpdateNodeValue exampleExternals 0
     (Some (mkDataValue 0x80000000 (Some (doubleVariant 79)) 100 101)) warmClient
   = Done (warmClient
       \<lparr>Log := [Error (StatusNotOKForNode ''temp'' (NodeText ''ns=3;s=Temperature'') 0x80000000)],
        LastReceivedData := [\<lparr>TagName = ''temp'', Value = Float64 (Float 21.5),
                               Quality = 0x80000000, ServerTime = 5, SourceTime = 6,
                               DataType = TypeIDDouble\<rparr>]\<rparr>)"
  by (simp add: UpdateNodeValue_def data_defs logs_def)

text \<open>
  C7 at a client with one mapping: a good notification with the value 79, and a
  notification of two items.
\<close>

theorem C7_data_change_witness:
  "(\<exists>c' m. processMonitoredItems exampleExternals
              [mkItem 0 (mkDataValue 0 (Some (doubleVariant 79)) 100 101)] warmClient = Done c' \<and>
      metrics c' = Some [m] \<and> m_name m = ''opcua'' \<and>
      Quality (LastReceivedData c' ! 0) = 0 \<and>
      Value (LastReceivedData c' ! 0) = Float64 (Float 79) \<and>
      ServerTime (LastReceivedData c' ! 0) = 100 \<and>
      SourceTime (LastReceivedData c' ! 0) = 101 \<and>
      map_of (m_fields m) ''temp'' = Some (Float64 (Float 79)))
   \<and> (\<exists>c' ms. processMonitoredItems exampleExternals
              [mkItem 0 (mkDataValue 0 (Some (doubleVariant 79)) 100 101),
               mkItem 0 (mkDataValue 0x80000000 None 102 103)] warmClient = Done c' \<and>
        metrics c' = Some ms \<and> length ms = 2)"
proof -
  define d where "d = mkDataValue 0 (Some (doubleVariant 79)) 100 101"
  define item where "item = mkItem 0 d"
  define item2 where "item2 = mkItem 0 (mkDataValue 0x80000000 None 102 103)"
  have h: "itemReady warmClient item" "ItemValue item = Some d" "metrics warmClient = Some []"
    "\<forall>it \<in> set [item, item2]. itemReady warmClient it" "metrics warmClient = Some []"
    by (simp_all add: itemReady_def item_def item2_def d_def data_defs)
  note T = C7_data_change[OF h, of exampleExternals]
  have i0: "unat (ClientHandle item) = 0" by (simp add: item_def mkItem_def)
  have ok: "StatusCodeOK exampleExternals (dv_Status d)"
    "dv_Value d = Some (doubleVariant 79)" "dv_Status d = 0"
    "dv_ServerTimestamp d = 100" "dv_SourceTimestamp d = 101"
    "VariantType (doubleVariant 79) \<noteq> TypeIDDateTime"
    "VariantValue (doubleVariant 79) = Float64 (Float 79)"
    by (simp_all add: d_def data_defs)
  have nm: "metricName (NodeMetricMapping warmClient ! 0) = ''opcua''"
    "FieldName (Tag (NodeMetricMapping warmClient ! 0)) = ''temp''"
    "OptionalFields (Config warmClient) = []"
    by (simp_all add: data_defs)
  from T[THEN conjunct1] obtain c' m where
    r: "processMonitoredItems exampleExternals [item] warmClient = Done c'"
       "metrics c' = Some ([] @ [m])"
       "m_name m = metricName (NodeMetricMapping warmClient ! unat (ClientHandle item))"
       "Quality (LastReceivedData c' ! unat (ClientHandle item)) = dv_Status d"
    and g: "StatusCodeOK exampleExternals (dv_Status d) \<longrightarrow>
           ServerTime (LastReceivedData c' ! unat (ClientHandle item)) = dv_ServerTimestamp d \<and>
           SourceTime (LastReceivedData c' ! unat (ClientHandle item)) = dv_SourceTimestamp d \<and>
           (case dv_Value d of
              None \<Rightarrow>
                Value (LastReceivedData c' ! unat (ClientHandle item)) =
                  Value (LastReceivedData warmClient ! unat (ClientHandle item)) \<and>
                DataType (LastReceivedData c' ! unat (ClientHandle item)) =
                  DataType (LastReceivedData warmClient ! unat (ClientHandle item))
            | Some v \<Rightarrow>
                DataType (LastReceivedData c' ! unat (ClientHandle item)) = VariantType v \<and>
                Value (LastReceivedData c' ! unat (ClientHandle item)) =
                  (if VariantType v = TypeIDDateTime
                   then (case VariantValue v of
                           TimeValue t \<Rightarrow>
                             Str (FormatTime exampleExternals t (TimestampFormat (Config warmClient)))
                         | other \<Rightarrow> other)
                   else VariantValue v))"
    and f: "FieldName (Tag (NodeMetricMapping warmClient ! unat (ClientHandle item))) \<noteq> ''Quality'' \<and>
         (''DataType'' \<in> set (OptionalFields (Config warmClient)) \<longrightarrow>
            FieldName (Tag (NodeMetricMapping warmClient ! unat (ClientHandle item))) \<noteq> ''DataType'')
         \<longrightarrow> map_of (m_fields m)
               (FieldName (Tag (NodeMetricMapping warmClient ! unat (ClientHandle item)))) =
               Some (Value (LastReceivedData c' ! unat (ClientHandle item)))"
    by blast
  from g ok have v: "ServerTime (LastReceivedData c' ! 0) = 100"
    "SourceTime (LastReceivedData c' ! 0) = 101"
    "Value (LastReceivedData c' ! 0) = Float64 (Float 79)"
    by (simp_all add: i0)
  from f have "map_of (m_fields m) ''temp'' = Some (Float64 (Float 79))"
    by (simp add: i0 nm v)
  with r v have A: "\<exists>c' m. processMonitoredItems exampleExternals [item] warmClient = Done c' \<and>
      metrics c' = Some [m] \<and> m_name m = ''opcua'' \<and>
      Quality (LastReceivedData c' ! 0) = 0 \<and>
      Value (LastReceivedData c' ! 0) = Float64 (Float 79) \<and>
      ServerTime (LastReceivedData c' ! 0) = 100 \<and>
      SourceTime (LastReceivedData c' ! 0) = 101 \<and>
      map_of (m_fields m) ''temp'' = Some (Float64 (Float 79))"
    by (simp add: i0 nm ok)
  from T[THEN conjunct2, THEN conjunct1]
  have B: "\<exists>c' ms. processMonitoredItems exampleExternals [item, item2] warmClient = Done c' \<and>
        metrics c' = Some ms \<and> length ms = 2"
    by auto
  from A B show ?thesis unfolding item_def item2_def d_def by (intro conjI)
qed

lemma tags_lookup:
  assumes "wf_gomap tags"
  shows "map_of (range_assign tags [(''id'', s)]) = [''id'' \<mapsto> s] ++ map_of tags"
  using assms by (simp add: range_assign_map_of wf_gomap_def map_of_rev_distinct)

subsection \<open>Claim C8: the measurement of a node\<close>

text \<open>
  C8, as amended. For an index of the mappings and of the cache, MetricForNode returns a
  measurement named by the measurement name of the mapping. Its tags are the merged tags
  of the mapping and, unless the merged tags have a tag named \<open>id\<close> themselves, the tag
  \<open>id\<close> with the identifier string, and no other. Its fields are \<open>Quality\<close> with
  the text of the cached status, the field name with the cached value (unless the field is
  itself named \<open>Quality\<close>, or \<open>DataType\<close> when that field is asked for), and
  \<open>DataType\<close> when it is asked for, and no other. After an update with an accepted
  status and a value that is not of the date and time type, the field holds that value and
  \<open>Quality\<close> the text of that status.
\<close>

theorem C8_metric_for_node:
  assumes "i < length (NodeMetricMapping c)" and "i < length (LastReceivedData c)"
    and "wf_gomap (MetricTags (NodeMetricMapping c ! i))"
  shows
    "(\<exists>m c'. MetricForNode X i c = Done (m, c') \<and>
        m_name m = metricName (NodeMetricMapping c ! i) \<and>
        (\<forall>k v. map_of (MetricTags (NodeMetricMapping c ! i)) k = Some v
                 \<longrightarrow> map_of (m_tags m) k = Some v) \<and>
        (map_of (MetricTags (NodeMetricMapping c ! i)) ''id'' = None
           \<longrightarrow> map_of (m_tags m) ''id'' = Some (idStr (NodeMetricMapping c ! i))) \<and>
        dom (map_of (m_tags m)) = insert ''id'' (dom (map_of (MetricTags (NodeMetricMapping c ! i)))) \<and>
        map_of (m_fields m) ''Quality'' =
          Some (Str (TrimSpace X (StatusCodeError X (Quality (LastReceivedData c ! i))))) \<and>
        (FieldName (Tag (NodeMetricMapping c ! i)) \<noteq> ''Quality'' \<and>
         (''DataType'' \<in> set (OptionalFields (Config c)) \<longrightarrow>
            FieldName (Tag (NodeMetricMapping c ! i)) \<noteq> ''DataType'')
         \<longrightarrow> map_of (m_fields m) (FieldName (Tag (NodeMetricMapping c ! i))) =
               Some (Value (LastReceivedData c ! i))) \<and>
        (''DataType'' \<in> set (OptionalFields (Config c))
         \<longrightarrow> map_of (m_fields m) ''DataType'' =
               Some (Str (removeFirst ''TypeID'' (TypeIDString X (DataType (LastReceivedData c ! i)))))) \<and>
        dom (map_of (m_fields m)) =
          {FieldName (Tag (NodeMetricMapping c ! i)), ''Quality''} \<union>
          (if ''DataType'' \<in> set (OptionalFields (Config c)) then {''DataType''} else {}))
     \<and> (StatusCodeOK X (dv_Status d) \<and> dv_Value d = Some v \<and> VariantType v \<noteq> TypeIDDateTime
        \<longrightarrow> (\<exists>c1 m c2. UpdateNodeValue X i (Some d) c = Done c1 \<and>
               MetricForNode X i c1 = Done (m, c2) \<and>
               map_of (m_fields m) ''Quality'' =
                 Some (Str (TrimSpace X (StatusCodeError X (dv_Status d)))) \<and>
               (FieldName (Tag (NodeMetricMapping c ! i)) \<noteq> ''Quality'' \<and>
                (''DataType'' \<in> set (OptionalFields (Config c)) \<longrightarrow>
                   FieldName (Tag (NodeMetricMapping c ! i)) \<noteq> ''DataType'')
                \<longrightarrow> map_of (m_fields m) (FieldName (Tag (NodeMetricMapping c ! i))) =
                      Some (VariantValue v)) \<and>
               (map_of (MetricTags (NodeMetricMapping c ! i)) ''id'' = None
                  \<longrightarrow> map_of (m_tags m) ''id'' = Some (idStr (NodeMetricMapping c ! i)))))"
proof (intro conjI impI)
  from MetricForNode_Done[OF assms(1,2), of X] obtain m c' where
    mf: "MetricForNode X i c = Done (m, c')"
    and n: "m_name m = metricName (NodeMetricMapping c ! i)"
    and t: "m_tags m = range_assign (MetricTags (NodeMetricMapping c ! i))
                  [(''id'', idStr (NodeMetricMapping c ! i))]"
    and f: "m_fields m =
       (let f1 = AList.update ''Quality''
                   (Str (TrimSpace X (StatusCodeError X (Quality (LastReceivedData c ! i)))))
                   [(FieldName (Tag (NodeMetricMapping c ! i)), Value (LastReceivedData c ! i))]
        in if ''DataType'' \<in> set (OptionalFields (Config c))
           then AList.update ''DataType''
                  (Str (removeFirst ''TypeID'' (TypeIDString X (DataType (LastReceivedData c ! i)))))
                  f1
           else f1)"
    by blast
  have tm: "map_of (m_tags m) =
      [''id'' \<mapsto> idStr (NodeMetricMapping c ! i)] ++ map_of (MetricTags (NodeMetricMapping c ! i))"
    unfolding t by (rule tags_lookup[OF assms(3)])
  have 1: "\<forall>k v. map_of (MetricTags (NodeMetricMapping c ! i)) k = Some v
                 \<longrightarrow> map_of (m_tags m) k = Some v"
    by (simp add: tm)
  have 2: "map_of (MetricTags (NodeMetricMapping c ! i)) ''id'' = None
           \<longrightarrow> map_of (m_tags m) ''id'' = Some (idStr (NodeMetricMapping c ! i))"
    by (simp add: tm map_add_def)
  have 3: "dom (map_of (m_tags m)) = insert ''id'' (dom (map_of (MetricTags (NodeMetricMapping c ! i))))"
    by (simp add: tm)
  note fl = fields_lookup[OF f]
  have 4: "FieldName (Tag (NodeMetricMapping c ! i)) \<noteq> ''Quality'' \<and>
         (''DataType'' \<in> set (OptionalFields (Config c)) \<longrightarrow>
            FieldName (Tag (NodeMetricMapping c ! i)) \<noteq> ''DataType'')
         \<longrightarrow> map_of (m_fields m) (FieldName (Tag (NodeMetricMapping c ! i))) =
               Some (Value (LastReceivedData c ! i))"
    using fl(2) by simp
  have 5: "''DataType'' \<in> set (OptionalFields (Config c))
         \<longrightarrow> map_of (m_fields m) ''DataType'' =
               Some (Str (removeFirst ''TypeID'' (TypeIDString X (DataType (LastReceivedData c ! i)))))"
    using fl(3) by simp
  show "\<exists>m c'. MetricForNode X i c = Done (m, c') \<and>
        m_name m = metricName (NodeMetricMapping c ! i) \<and>
        (\<forall>k v. map_of (MetricTags (NodeMetricMapping c ! i)) k = Some v
                 \<longrightarrow> map_of (m_tags m) k = Some v) \<and>
        (map_of (MetricTags (NodeMetricMapping c ! i)) ''id'' = None
           \<longrightarrow> map_of (m_tags m) ''id'' = Some (idStr (NodeMetricMapping c ! i))) \<and>
        dom (map_of (m_tags m)) = insert ''id'' (dom (map_of (MetricTags (NodeMetricMapping c ! i)))) \<and>
        map_of (m_fields m) ''Quality'' =
          Some (Str (TrimSpace X (StatusCodeError X (Quality (LastReceivedData c ! i))))) \<and>
        (FieldName (Tag (NodeMetricMapping c ! i)) \<noteq> ''Quality'' \<and>
         (''DataType'' \<in> set (OptionalFields (Config c)) \<longrightarrow>
            FieldName (Tag (NodeMetricMapping c ! i)) \<noteq> ''DataType'')
         \<longrightarrow> map_of (m_fields m) (FieldName (Tag (NodeMetricMapping c ! i))) =
               Some (Value (LastReceivedData c ! i))) \<and>
        (''DataType'' \<in> set (OptionalFields (Config c))
         \<longrightarrow> map_of (m_fields m) ''DataType'' =
               Some (Str (removeFirst ''TypeID'' (TypeIDString X (DataType (LastReceivedData c ! i)))))) \<and>
        dom (map_of (m_fields m)) =
          {FieldName (Tag (NodeMetricMapping c ! i)), ''Quality''} \<union>
          (if ''DataType'' \<in> set (OptionalFields (Config c)) then {''DataType''} else {})"
    apply (rule exI[of _ m])
    apply (rule exI[of _ c'])
    using mf n 1 2 3 fl(1) 4 5 fl(4) by (intro conjI)
next
  assume h: "StatusCodeOK X (dv_Status d) \<and> dv_Value d = Some v \<and> VariantType v \<noteq> TypeIDDateTime"
  then have ok: "StatusCodeOK X (dv_Status d)" by simp
  define c1 where "c1 = c\<lparr>LastReceivedData :=
              (LastReceivedData c)[i := okSlot X (TimestampFormat (Config c)) d
                                          (LastReceivedData c ! i)]\<rparr>"
  have u: "UpdateNodeValue X i (Some d) c = Done c1"
    unfolding c1_def by (rule UpdateNodeValue_ok[OF assms(2) ok])
  have k: "NodeMetricMapping c1 = NodeMetricMapping c" "Config c1 = Config c"
    "LastReceivedData c1 ! i = okSlot X (TimestampFormat (Config c)) d (LastReceivedData c ! i)"
    using assms(2) by (simp_all add: c1_def)
  have r: "i < length (NodeMetricMapping c1)" "i < length (LastReceivedData c1)"
    using assms(1,2) by (simp_all add: c1_def)
  from MetricForNode_Done[OF r, of X] obtain m c2 where
    mf: "MetricForNode X i c1 = Done (m, c2)"
    and t: "m_tags m = range_assign (MetricTags (NodeMetricMapping c1 ! i))
                  [(''id'', idStr (NodeMetricMapping c1 ! i))]"
    and f: "m_fields m =
       (let f1 = AList.update ''Quality''
                   (Str (TrimSpace X (StatusCodeError X (Quality (LastReceivedData c1 ! i)))))
                   [(FieldName (Tag (NodeMetricMapping c1 ! i)), Value (LastReceivedData c1 ! i))]
        in if ''DataType'' \<in> set (OptionalFields (Config c1))
           then AList.update ''DataType''
                  (Str (removeFirst ''TypeID'' (TypeIDString X (DataType (LastReceivedData c1 ! i)))))
                  f1
           else f1)"
    by blast
  have tm: "map_of (m_tags m) =
      [''id'' \<mapsto> idStr (NodeMetricMapping c ! i)] ++ map_of (MetricTags (NodeMetricMapping c ! i))"
    unfolding t k(1) by (rule tags_lookup[OF assms(3)])
  note fl = fields_lookup[OF f]
  have q: "Quality (LastReceivedData c1 ! i) = dv_Status d"
    and vv: "Value (LastReceivedData c1 ! i) = VariantValue v"
    using h by (simp_all add: k(3) okSlot_def)
  have 1: "map_of (m_fields m) ''Quality'' =
                 Some (Str (TrimSpace X (StatusCodeError X (dv_Status d))))"
    using fl(1) by (simp add: q)
  have 2: "FieldName (Tag (NodeMetricMapping c ! i)) \<noteq> ''Quality'' \<and>
                (''DataType'' \<in> set (OptionalFields (Config c)) \<longrightarrow>
                   FieldName (Tag (NodeMetricMapping c ! i)) \<noteq> ''DataType'')
                \<longrightarrow> map_of (m_fields m) (FieldName (Tag (NodeMetricMapping c ! i))) =
                      Some (VariantValue v)"
    using fl(2) by (simp add: k(1,2) vv)
  have 3: "map_of (MetricTags (NodeMetricMapping c ! i)) ''id'' = None
                  \<longrightarrow> map_of (m_tags m) ''id'' = Some (idStr (NodeMetricMapping c ! i))"
    by (simp add: tm map_add_def)
  show "\<exists>c1 m c2. UpdateNodeValue X i (Some d) c = Done c1 \<and>
               MetricForNode X i c1 = Done (m, c2) \<and>
               map_of (m_fields m) ''Quality'' =
                 Some (Str (TrimSpace X (StatusCodeError X (dv_Status d)))) \<and>
               (FieldName (Tag (NodeMetricMapping c ! i)) \<noteq> ''Quality'' \<and>
                (''DataType'' \<in> set (OptionalFields (Config c)) \<longrightarrow>
                   FieldName (Tag (NodeMetricMapping c ! i)) \<noteq> ''DataType'')
                \<longrightarrow> map_of (m_fields m) (FieldName (Tag (NodeMetricMapping c ! i))) =
                      Some (VariantValue v)) \<and>
               (map_of (MetricTags (NodeMetricMapping c ! i)) ''id'' = None
                  \<longrightarrow> map_of (m_tags m) ''id'' = Some (idStr (NodeMetricMapping c ! i)))"
    apply (rule exI[of _ c1])
    apply (rule exI[of _ m])
    apply (rule exI[of _ c2])
    using u mf 1 2 3 by (intro conjI)
qed

text \<open>
  C8 as stated fails: a node with the default tag \<open>id = custom\<close> is accepted by the
  builder, its identifier string is \<open>ns=3;s=Temperature\<close>, and the measurement has
  the tag \<open>id = custom\<close>.
\<close>

theorem C8_counterexample:
  "NewNodeMetricMapping ''opcua'' (mkNode ''temp'' ''3'' ''s'' ''Temperature'' [(''id'', ''custom'')]) []
     = Inr taggedMapping
   \<and> idStr taggedMapping = ''ns=3;s=Temperature''
   \<and> MetricForNode exampleExternals 0 taggedClient
     = Done (\<lparr>m_name = ''opcua'', m_tags = [(''id'', ''custom'')],
              m_fields = [(''temp'', Float64 (Float 79)), (''Quality'', Str ''OK (0x0)'')],
              m_time = 101\<rparr>, taggedClient)"
  by (simp add: MetricForNode_def taggedClient_def taggedMapping_def data_defs metricNew_def
      NewNodeMetricMapping_def range_assign_def Let_def)

text \<open>
  C8 at the mapping \<open>temp\<close> of the node \<open>ns=3;s=Temperature\<close>: after a good data
  change with the value 79 the measurement has the fields \<open>temp = 79\<close> and
  \<open>Quality = OK (0x0)\<close> and the tag \<open>id = ns=3;s=Temperature\<close>.
\<close>

theorem C8_metric_for_node_witness:
  "(\<exists>m c'. MetricForNode exampleExternals 0 warmClient = Done (m, c') \<and> m_name m = ''opcua'' \<and>
           map_of (m_tags m) ''id'' = Some ''ns=3;s=Temperature'' \<and>
           dom (map_of (m_fields m)) = {''temp'', ''Quality''})
   \<and> (\<exists>c1 m c2. UpdateNodeValue exampleExternals 0
                    (Some (mkDataValue 0 (Some (doubleVariant 79)) 100 101))
                    (mkClient ''error'' [tempMapping] []) = Done c1 \<and>
         MetricForNode exampleExternals 0 c1 = Done (m, c2) \<and>
         map_of (m_fields m) ''Quality'' = Some (Str ''OK (0x0)'') \<and>
         map_of (m_fields m) ''temp'' = Some (Float64 (Float 79)) \<and>
         map_of (m_tags m) ''id'' = Some ''ns=3;s=Temperature'')"
proof -
  define d where "d = mkDataValue 0 (Some (doubleVariant 79)) 100 101"
  define cold where "cold = mkClient ''error'' [tempMapping] []"
  have hw: "0 < length (NodeMetricMapping warmClient)" "0 < length (LastReceivedData warmClient)"
    "wf_gomap (MetricTags (NodeMetricMapping warmClient ! 0))"
    by (simp_all add: data_defs wf_gomap_def)
  have hc: "0 < length (NodeMetricMapping cold)" "0 < length (LastReceivedData cold)"
    "wf_gomap (MetricTags (NodeMetricMapping cold ! 0))"
    by (simp_all add: cold_def data_defs wf_gomap_def)
  have fw: "metricName (NodeMetricMapping warmClient ! 0) = ''opcua''"
    "map_of (MetricTags (NodeMetricMapping warmClient ! 0)) ''id'' = None"
    "idStr (NodeMetricMapping warmClient ! 0) = ''ns=3;s=Temperature''"
    "FieldName (Tag (NodeMetricMapping warmClient ! 0)) = ''temp''"
    "OptionalFields (Config warmClient) = []"
    by (simp_all add: data_defs)
  have fc: "map_of (MetricTags (NodeMetricMapping cold ! 0)) ''id'' = None"
    "idStr (NodeMetricMapping cold ! 0) = ''ns=3;s=Temperature''"
    "FieldName (Tag (NodeMetricMapping cold ! 0)) = ''temp''"
    "OptionalFields (Config cold) = []"
    by (simp_all add: cold_def data_defs)
  have fd: "StatusCodeOK exampleExternals (dv_Status d) \<and> dv_Value d = Some (doubleVariant 79) \<and>
      VariantType (doubleVariant 79) \<noteq> TypeIDDateTime"
    "TrimSpace exampleExternals (StatusCodeError exampleExternals (dv_Status d)) = ''OK (0x0)''"
    "VariantValue (doubleVariant 79) = Float64 (Float 79)"
    by (simp_all add: d_def data_defs)
  from C8_metric_for_node[OF hw, of exampleExternals, THEN conjunct1] obtain m c' where
    a: "MetricForNode exampleExternals 0 warmClient = Done (m, c')"
       "m_name m = metricName (NodeMetricMapping warmClient ! 0)"
       "map_of (MetricTags (NodeMetricMapping warmClient ! 0)) ''id'' = None
           \<longrightarrow> map_of (m_tags m) ''id'' = Some (idStr (NodeMetricMapping warmClient ! 0))"
       "dom (map_of (m_fields m)) =
          {FieldName (Tag (NodeMetricMapping warmClient ! 0)), ''Quality''} \<union>
          (if ''DataType'' \<in> set (OptionalFields (Config warmClient)) then {''DataType''} else {})"
    apply (elim exE conjE)
    apply (rule that)
    apply assumption+
    done
  have a2: "m_name m = ''opcua''" using a(2) by (simp only: fw)
  have a3: "map_of (m_tags m) ''id'' = Some ''ns=3;s=Temperature''"
    using a(3) by (simp only: fw simp_thms)
  have a4: "dom (map_of (m_fields m)) = {''temp'', ''Quality''}"
    using a(4) by (simp only: fw list.set empty_iff if_False Un_empty_right)
  have A: "\<exists>m c'. MetricForNode exampleExternals 0 warmClient = Done (m, c') \<and> m_name m = ''opcua'' \<and>
           map_of (m_tags m) ''id'' = Some ''ns=3;s=Temperature'' \<and>
           dom (map_of (m_fields m)) = {''temp'', ''Quality''}"
    apply (rule exI[of _ m])
    apply (rule exI[of _ c'])
    using a(1) a2 a3 a4 by (intro conjI)
  from C8_metric_for_node[OF hc, of exampleExternals d "doubleVariant 79", THEN conjunct2, THEN mp, OF fd(1)]
  obtain c1 m1 c2 where
    b: "UpdateNodeValue exampleExternals 0 (Some d) cold = Done c1"
       "MetricForNode exampleExternals 0 c1 = Done (m1, c2)"
       "map_of (m_fields m1) ''Quality'' =
                 Some (Str (TrimSpace exampleExternals (StatusCodeError exampleExternals (dv_Status d))))"
       "FieldName (Tag (NodeMetricMapping cold ! 0)) \<noteq> ''Quality'' \<and>
                (''DataType'' \<in> set (OptionalFields (Config cold)) \<longrightarrow>
                   FieldName (Tag (NodeMetricMapping cold ! 0)) \<noteq> ''DataType'')
                \<longrightarrow> map_of (m_fields m1) (FieldName (Tag (NodeMetricMapping cold ! 0))) =
                      Some (VariantValue (doubleVariant 79))"
       "map_of (MetricTags (NodeMetricMapping cold ! 0)) ''id'' = None
                  \<longrightarrow> map_of (m_tags m1) ''id'' = Some (idStr (NodeMetricMapping cold ! 0))"
    apply (elim exE conjE)
    apply (rule that)
    apply assumption+
    done
  have b3: "map_of (m_fields m1) ''Quality'' = Some (Str ''OK (0x0)'')"
    using b(3) by (simp only: fd(2))
  have ne: "''temp'' \<noteq> ''Quality''" by simp
  have b4: "map_of (m_fields m1) ''temp'' = Some (Float64 (Float 79))"
    using b(4) ne by (simp only: fc fd(3) list.set empty_iff simp_thms)
  have b5: "map_of (m_tags m1) ''id'' = Some ''ns=3;s=Temperature''"
    using b(5) by (simp only: fc simp_thms)
  have B: "\<exists>c1 m c2. UpdateNodeValue exampleExternals 0 (Some d) cold = Done c1 \<and>
         MetricForNode exampleExternals 0 c1 = Done (m, c2) \<and>
         map_of (m_fields m) ''Quality'' = Some (Str ''OK (0x0)'') \<and>
         map_of (m_fields m) ''temp'' = Some (Float64 (Float 79)) \<and>
         map_of (m_tags m) ''id'' = Some ''ns=3;s=Temperature''"
    apply (rule exI[of _ c1])
    apply (rule exI[of _ m1])
    apply (rule exI[of _ c2])
    using b(1,2) b3 b4 b5 by (intro conjI)
  from A B show ?thesis unfolding d_def cold_def by (intro conjI)
qed




subsection \<open>Claim C9: an event notification\<close>




end
